theory Spec2Isabelle
  imports Complex_Main
begin

section \<open>Shuffle Battle: the two versions of the playlist comparison\<close>

text \<open>
  The repository holds two versions of one React component. \<^verbatim>\<open>src/App.jsx\<close> compares
  two playlists by the average popularity of their tracks; the second source file
  compares them by an audio feature chosen through a category. Both share
  \<^verbatim>\<open>getToken\<close> and \<^verbatim>\<open>extractPlaylistId\<close> word for word. Functions of the
  second file that differ from \<^verbatim>\<open>src/App.jsx\<close> carry the suffix \<open>_cat\<close>.

  Conventions of the embedding:
  \<^item> a JavaScript string is a \<open>string\<close>; a \<open>char\<close> stands for one code unit below 256;
  \<^item> a JavaScript number is a \<open>real\<close> (rounding of doubles is not modelled); the one
    place where the source can compute \<open>0 / 0\<close> returns \<open>None\<close> for NaN;
  \<^item> \<open>null\<close> and \<open>undefined\<close> are \<open>None\<close>;
  \<^item> an \<open>async\<close> function is a function from the state to a result and a new state; a
    thrown error is \<open>Inl\<close>;
  \<^item> the state records the module variables, the clock, every HTTP request issued and
    the leading string of every \<^verbatim>\<open>console.error\<close> call (\<^verbatim>\<open>console.log\<close> output is
    not recorded).
\<close>

subsection \<open>Identifier extraction\<close>

definition isAlnum :: "char \<Rightarrow> bool" where
  \<comment> \<open>the character class \<^verbatim>\<open>[a-zA-Z0-9]\<close>\<close>
  "isAlnum c =
     (let n = (of_char c :: nat)
      in (97 \<le> n \<and> n \<le> 122) \<or> (65 \<le> n \<and> n \<le> 90) \<or> (48 \<le> n \<and> n \<le> 57))"

definition matchHere :: "string \<Rightarrow> string option" where
  \<comment> \<open>\<^verbatim>\<open>/playlist\/([a-zA-Z0-9]{22})/\<close> anchored at the start of \<open>s\<close>; the capture group\<close>
  "matchHere s =
     (let g = take 22 (drop 9 s)
      in if take 9 s = ''playlist/'' \<and> length g = 22 \<and> list_all isAlnum g
         then Some g else None)"

fun url_match :: "string \<Rightarrow> string option" where
  \<comment> \<open>\<^verbatim>\<open>url.match(/playlist\/([a-zA-Z0-9]{22})/)\<close>: the leftmost position that matches;
      the result is \<^verbatim>\<open>match[1]\<close>, or \<open>None\<close> for \<^verbatim>\<open>null\<close>\<close>
  "url_match [] = None"
| "url_match (c # cs) =
     (case matchHere (c # cs) of Some g \<Rightarrow> Some g | None \<Rightarrow> url_match cs)"

subsection \<open>Errors, requests and the upstream service\<close>

datatype js_error =
    Error string              \<comment> \<open>\<^verbatim>\<open>new Error(message)\<close>\<close>
  | AxiosError "nat option"   \<comment> \<open>a rejected axios call; \<^verbatim>\<open>error.response.status\<close> when there is a response\<close>
  | TypeError                 \<comment> \<open>reading a property of \<^verbatim>\<open>null\<close> or \<^verbatim>\<open>undefined\<close>\<close>

datatype request =
    TokenReq                          \<comment> \<open>POST accounts.spotify.com/api/token\<close>
  | TracksReq string string           \<comment> \<open>bearer token, playlist id: GET /v1/playlists/id/tracks\<close>
  | InfoReq string string             \<comment> \<open>bearer token, playlist id: GET /v1/playlists/id\<close>
  | FeaturesReq string "string list"  \<comment> \<open>bearer token, track ids: GET /v1/audio-features?ids=...\<close>

datatype 'a http = Ok 'a | Rejected "nat option"

record token_data =
  access_token :: string
  expires_in :: int

record raw_track =
  raw_id :: "string option"
  raw_popularity :: "real option"

record item =
  item_track :: "raw_track option"

record tracks_data =
  items :: "item list option"

record info_data =
  info_name :: string
  images :: "string option list option"   \<comment> \<open>the \<^verbatim>\<open>url\<close> of each image\<close>

type_synonym features = "string \<Rightarrow> real option"

record features_data =
  audio_features :: "features option list option"

text \<open>
  The upstream service answers each request; the first argument is the number of
  requests issued before, so that answers may change from one call to the next.
  \<open>latency\<close> is the time in milliseconds that the awaited call takes.
\<close>

record upstream =
  token_ep :: "nat \<Rightarrow> token_data http"
  tracks_ep :: "nat \<Rightarrow> string \<Rightarrow> string \<Rightarrow> tracks_data http"
  info_ep :: "nat \<Rightarrow> string \<Rightarrow> string \<Rightarrow> info_data http"
  features_ep :: "nat \<Rightarrow> string \<Rightarrow> string list \<Rightarrow> features_data http"
  latency :: "nat \<Rightarrow> nat"

record state =
  token :: "string option"               \<comment> \<open>\<^verbatim>\<open>let token = null\<close>\<close>
  tokenExpirationTime :: "int option"    \<comment> \<open>\<^verbatim>\<open>let tokenExpirationTime = null\<close>\<close>
  clock :: int                           \<comment> \<open>\<^verbatim>\<open>Date.now()\<close>\<close>
  requests :: "request list"
  console :: "string list"

type_synonym 'a async = "state \<Rightarrow> (js_error + 'a) \<times> state"

definition console_error :: "string \<Rightarrow> state \<Rightarrow> state" where
  "console_error msg s = s\<lparr>console := console s @ [msg]\<rparr>"

definition issue :: "upstream \<Rightarrow> request \<Rightarrow> state \<Rightarrow> state" where
  \<comment> \<open>an awaited HTTP call: the request is recorded and the clock moves on\<close>
  "issue w r s =
     s\<lparr>requests := requests s @ [r],
       clock := clock s + int (latency w (length (requests s)))\<rparr>"

definition andThen :: "'a async \<Rightarrow> ('a \<Rightarrow> 'b async) \<Rightarrow> 'b async" where
  \<comment> \<open>\<^verbatim>\<open>const x = await m; ...\<close>: a thrown error skips the rest\<close>
  "andThen m f s = (case m s of (Inl e, s') \<Rightarrow> (Inl e, s') | (Inr x, s') \<Rightarrow> f x s')"

definition tryCatch :: "'a async \<Rightarrow> (js_error \<Rightarrow> 'a async) \<Rightarrow> 'a async" where
  \<comment> \<open>\<^verbatim>\<open>try { m } catch (error) { h }\<close>\<close>
  "tryCatch m h s = (case m s of (Inl e, s') \<Rightarrow> h e s' | (Inr x, s') \<Rightarrow> (Inr x, s'))"

definition truthy :: "string option \<Rightarrow> bool" where
  \<comment> \<open>a string, \<^verbatim>\<open>null\<close> or \<^verbatim>\<open>undefined\<close> in a condition: the empty string is falsy too\<close>
  "truthy v = (case v of None \<Rightarrow> False | Some x \<Rightarrow> x \<noteq> [])"

definition orZero :: "real option \<Rightarrow> real" where
  \<comment> \<open>\<^verbatim>\<open>v || 0\<close> for a number or a missing value\<close>
  "orZero v = (case v of None \<Rightarrow> 0 | Some x \<Rightarrow> if x = 0 then 0 else x)"

subsection \<open>The credential cache\<close>

definition tokenValid :: "state \<Rightarrow> bool" where
  \<comment> \<open>\<^verbatim>\<open>token && tokenExpirationTime > Date.now()\<close>; \<^verbatim>\<open>null\<close> compares as 0\<close>
  "tokenValid s =
     (truthy (token s) \<and>
      (case tokenExpirationTime s of None \<Rightarrow> 0 | Some e \<Rightarrow> e) > clock s)"

definition resolve :: "'a \<Rightarrow> 'a async" where
  "resolve x s = (Inr x, s)"

definition throw :: "js_error \<Rightarrow> 'a async" where
  "throw e s = (Inl e, s)"

definition await_http :: "upstream \<Rightarrow> request \<Rightarrow> (nat \<Rightarrow> 'a http) \<Rightarrow> 'a async" where
  \<comment> \<open>\<^verbatim>\<open>await axios.get(...)\<close> or \<^verbatim>\<open>await axios.post(...)\<close>: axios rejects on an error status
      or when there is no response; on success the result is \<^verbatim>\<open>response.data\<close>\<close>
  "await_http w r ep s =
     (case ep (length (requests s)) of
        Rejected st \<Rightarrow> (Inl (AxiosError st), issue w r s)
      | Ok d \<Rightarrow> (Inr d, issue w r s))"

definition tokenExchange :: "upstream \<Rightarrow> string async" where
  \<comment> \<open>the \<^verbatim>\<open>try\<close> block of \<^verbatim>\<open>getToken\<close>. The Basic credential is fixed configuration; whether
      the service accepts it is part of \<open>token_ep\<close>.\<close>
  "tokenExchange w =
     tryCatch
       (andThen (await_http w TokenReq (token_ep w)) (\<lambda>d s.
          (Inr (access_token d),
           s\<lparr>token := Some (access_token d),
             tokenExpirationTime := Some (clock s + expires_in d * 1000)\<rparr>)))
       (\<lambda>error s.
          (Inl (Error ''Failed to get access token''),
           console_error ''Error fetching token:'' s))"

definition getToken :: "upstream \<Rightarrow> string async" where
  "getToken w s =
     (case token s of
        Some t \<Rightarrow> if tokenValid s then (Inr t, s) else tokenExchange w s
      | None \<Rightarrow> tokenExchange w s)"

subsection \<open>The popularity comparison (\<^verbatim>\<open>src/App.jsx\<close>)\<close>

record playlist_info =
  name :: string
  image :: string

record track =
  track_id :: string
  popularity :: "real option"

record result =
  res_name :: "string option"
  res_image :: "string option"
  message :: string

definition orEmpty :: "string option \<Rightarrow> string" where
  \<comment> \<open>\<^verbatim>\<open>v || ""\<close>\<close>
  "orEmpty v = (case v of None \<Rightarrow> [] | Some u \<Rightarrow> u)"

definition getPlaylistInfo :: "upstream \<Rightarrow> string \<Rightarrow> playlist_info async" where
  "getPlaylistInfo w playlistId =
     tryCatch
       (andThen (getToken w) (\<lambda>tok.
        andThen (await_http w (InfoReq tok playlistId) (\<lambda>n. info_ep w n tok playlistId)) (\<lambda>d.
          case images d of
            None \<Rightarrow> throw TypeError
          | Some imgs \<Rightarrow>
              resolve \<lparr>name = info_name d,
                       image = (case imgs of [] \<Rightarrow> [] | u # _ \<Rightarrow> orEmpty u)\<rparr>)))
       (\<lambda>error s.
          (Inl (Error ''Failed to fetch playlist info''),
           console_error ''Error fetching playlist info:'' s))"

definition keepItem :: "item \<Rightarrow> bool" where
  \<comment> \<open>\<^verbatim>\<open>item.track && item.track.id\<close>\<close>
  "keepItem i = (case item_track i of None \<Rightarrow> False | Some t \<Rightarrow> truthy (raw_id t))"

definition toTrack :: "item \<Rightarrow> track" where
  \<comment> \<open>\<^verbatim>\<open>{ id: item.track.id, popularity: item.track.popularity || 0 }\<close>, on a kept item\<close>
  "toTrack i =
     (case item_track i of
        None \<Rightarrow> \<lparr>track_id = [], popularity = Some 0\<rparr>
      | Some t \<Rightarrow> \<lparr>track_id = orEmpty (raw_id t),
                   popularity = Some (orZero (raw_popularity t))\<rparr>)"

definition getPlaylistTracks :: "upstream \<Rightarrow> string \<Rightarrow> track list async" where
  "getPlaylistTracks w playlistId =
     tryCatch
       (andThen (getToken w) (\<lambda>tok.
        andThen (await_http w (TracksReq tok playlistId) (\<lambda>n. tracks_ep w n tok playlistId)) (\<lambda>d.
          case items d of
            None \<Rightarrow> throw (Error ''No tracks found in the playlist'')
          | Some its \<Rightarrow>
              if length its = 0 then throw (Error ''No tracks found in the playlist'')
              else resolve (map toTrack (filter keepItem its)))))
       (\<lambda>error s.
          (Inl (Error ''Failed to fetch playlist data''),
           console_error ''Error fetching playlist:'' s))"

definition calculateAveragePopularity :: "track list \<Rightarrow> real" where
  "calculateAveragePopularity tracks =
     (if length tracks = 0 then 0
      else foldl (\<lambda>sum t. sum + orZero (popularity t)) 0 tracks / real (length tracks))"

definition undergroundMessage :: "string \<Rightarrow> string" where
  "undergroundMessage n = n @ '' is more underground, smell some good taste in there!''"

definition determineWinner :: "upstream \<Rightarrow> string \<Rightarrow> string \<Rightarrow> result async" where
  "determineWinner w playlist1Id playlist2Id =
     tryCatch
       (andThen (getPlaylistTracks w playlist1Id) (\<lambda>tracks1.
        andThen (getPlaylistTracks w playlist2Id) (\<lambda>tracks2.
        andThen (getPlaylistInfo w playlist1Id) (\<lambda>info1.
        andThen (getPlaylistInfo w playlist2Id) (\<lambda>info2.
          if length tracks1 = 0 \<or> length tracks2 = 0
          then throw (Error ''One of the playlists has no tracks.'')
          else
            (let avgPopularity1 = calculateAveragePopularity tracks1;
                 avgPopularity2 = calculateAveragePopularity tracks2
             in if avgPopularity1 > avgPopularity2
                then resolve \<lparr>res_name = Some (name info2), res_image = Some (image info2),
                              message = undergroundMessage (name info2)\<rparr>
                else if avgPopularity1 < avgPopularity2
                then resolve \<lparr>res_name = Some (name info1), res_image = Some (image info1),
                              message = undergroundMessage (name info1)\<rparr>
                else resolve \<lparr>res_name = None, res_image = None,
                              message = ''Both playlists are equally underground!''\<rparr>))))))
       (\<lambda>error s.
          (Inl (Error ''Failed to determine winner''),
           console_error ''Error in determineWinner:'' s))"

definition extractPlaylistId :: "string \<Rightarrow> state \<Rightarrow> string option \<times> state" where
  "extractPlaylistId url s =
     (case url_match url of
        None \<Rightarrow> (None, console_error ''Invalid playlist URL:'' s)
      | Some g \<Rightarrow> (Some g, s))"

definition plain :: "string \<Rightarrow> result" where
  \<comment> \<open>\<^verbatim>\<open>{ message: m, image: "", name: "" }\<close>\<close>
  "plain m = \<lparr>res_name = Some [], res_image = Some [], message = m\<rparr>"

definition handleSubmit :: "upstream \<Rightarrow> string \<Rightarrow> string \<Rightarrow> state \<Rightarrow> result \<times> state" where
  \<comment> \<open>the value left in the React state \<^verbatim>\<open>result\<close> when the handler has finished\<close>
  "handleSubmit w playlist1 playlist2 s =
     (if playlist1 = [] \<or> playlist2 = [] then (plain ''Please fill in all fields!'', s)
      else
        (case extractPlaylistId playlist1 s of (playlist1Id, s1) \<Rightarrow>
         case extractPlaylistId playlist2 s1 of (playlist2Id, s2) \<Rightarrow>
           (case (playlist1Id, playlist2Id) of
              (Some id1, Some id2) \<Rightarrow>
                if id1 = [] \<or> id2 = [] then (plain ''Invalid playlist link!'', s2)
                else
                  (case determineWinner w id1 id2 s2 of
                     (Inr winner, s3) \<Rightarrow> (winner, s3)
                   | (Inl error, s3) \<Rightarrow>
                       (plain ''Error fetching playlist data!'',
                        console_error ''Error in handleSubmit:'' s3))
            | _ \<Rightarrow> (plain ''Invalid playlist link!'', s2))))"

subsection \<open>The category comparison (the second source file)\<close>

datatype js_prop =
    Undefined
  | Str string     \<comment> \<open>an own property of the object literal\<close>
  | Inherited      \<comment> \<open>a function or object inherited from \<^verbatim>\<open>Object.prototype\<close>; truthy\<close>

definition categoryEntries :: "(string \<times> string) list" where
  "categoryEntries =
     [(''Sadder'', ''valence''), (''Happier'', ''valence''), (''Energetic'', ''energy''),
      (''Danceable'', ''danceability''), (''Louder'', ''loudness''), (''Alive'', ''liveness'')]"

definition objectPrototypeNames :: "string list" where
  \<comment> \<open>the properties that every object literal inherits from \<^verbatim>\<open>Object.prototype\<close>\<close>
  "objectPrototypeNames =
     [''constructor'', ''toString'', ''toLocaleString'', ''valueOf'', ''hasOwnProperty'',
      ''isPrototypeOf'', ''propertyIsEnumerable'', ''__proto__'', ''__defineGetter__'',
      ''__defineSetter__'', ''__lookupGetter__'', ''__lookupSetter__'']"

definition categoryMapping :: "string \<Rightarrow> js_prop" where
  \<comment> \<open>\<^verbatim>\<open>categoryMapping[category]\<close>: a property read on an object literal looks in the
      object first and then in its prototype\<close>
  "categoryMapping category =
     (case map_of categoryEntries category of
        Some k \<Rightarrow> Str k
      | None \<Rightarrow> if category \<in> set objectPrototypeNames then Inherited else Undefined)"

definition readFeature :: "features \<Rightarrow> js_prop \<Rightarrow> real option" where
  \<comment> \<open>\<^verbatim>\<open>track[featureKey]\<close>. An inherited function or object used as a key is converted
      to its source text, which names no field of a feature record.\<close>
  "readFeature t k = (case k of Str f \<Rightarrow> t f | _ \<Rightarrow> None)"

definition toLowerChar :: "char \<Rightarrow> char" where
  \<comment> \<open>the upper-case letters below 256 are A to Z and the Latin-1 letters 192 to 222
      without the multiplication sign 215; the lower-case letter is 32 higher, which
      is the same code with the bit of value 32 set\<close>
  "toLowerChar c =
     (let n = (of_char c :: nat)
      in if (65 \<le> n \<and> n \<le> 90) \<or> (192 \<le> n \<and> n \<le> 222 \<and> n \<noteq> 215)
         then (case c of Char b0 b1 b2 b3 b4 b5 b6 b7 \<Rightarrow> Char b0 b1 b2 b3 b4 True b6 b7)
         else c)"

definition toLowerCase :: "string \<Rightarrow> string" where
  "toLowerCase = map toLowerChar"

fun trackIds :: "item list \<Rightarrow> js_error + string option list" where
  \<comment> \<open>\<^verbatim>\<open>items.map((item) => item.track.id)\<close>: an item without a track raises\<close>
  "trackIds [] = Inr []"
| "trackIds (i # rest) =
     (case item_track i of
        None \<Rightarrow> Inl TypeError
      | Some t \<Rightarrow> (case trackIds rest of Inl e \<Rightarrow> Inl e | Inr ids \<Rightarrow> Inr (raw_id t # ids)))"

definition getPlaylistTracks_cat :: "upstream \<Rightarrow> string \<Rightarrow> string list async" where
  "getPlaylistTracks_cat w playlistId =
     tryCatch
       (andThen (getToken w) (\<lambda>tok.
        andThen (await_http w (TracksReq tok playlistId) (\<lambda>n. tracks_ep w n tok playlistId)) (\<lambda>d.
          case items d of
            None \<Rightarrow> throw (Error ''No tracks found in the playlist'')
          | Some its \<Rightarrow>
              if length its = 0 then throw (Error ''No tracks found in the playlist'')
              else (case trackIds its of
                      Inl e \<Rightarrow> throw e
                    | Inr ids \<Rightarrow> resolve (map orEmpty (filter truthy ids))))))
       (\<lambda>error s.
          (Inl (Error ''Failed to fetch playlist data''),
           console_error ''Error fetching playlist:'' s))"

definition getAudioFeatures :: "upstream \<Rightarrow> string list \<Rightarrow> features option list async" where
  "getAudioFeatures w ids =
     tryCatch
       (andThen (getToken w) (\<lambda>tok.
          (let validTrackIds = filter (\<lambda>i. i \<noteq> [] \<and> length i = 22) ids
           in if length validTrackIds = 0 then throw (Error ''No valid track IDs found'')
              else
                andThen (await_http w (FeaturesReq tok validTrackIds)
                           (\<lambda>n. features_ep w n tok validTrackIds)) (\<lambda>d.
                  case audio_features d of
                    None \<Rightarrow> throw (Error ''No audio features found'')
                  | Some fs \<Rightarrow>
                      if length fs = 0 then throw (Error ''No audio features found'')
                      else resolve fs))))
       (\<lambda>error s.
          (Inl (Error ''Failed to fetch audio features''),
           (if error = AxiosError (Some 429)
            then console_error ''Rate limit exceeded. Please try again later.'' s
            else console_error ''Error fetching audio features:'' s)))"

fun reduceFeature :: "js_prop \<Rightarrow> real \<Rightarrow> features option list \<Rightarrow> js_error + real" where
  \<comment> \<open>\<^verbatim>\<open>reduce((sum, track) => sum + (track[featureKey] || 0), acc)\<close>: a \<^verbatim>\<open>null\<close> entry raises\<close>
  "reduceFeature k acc [] = Inr acc"
| "reduceFeature k acc (None # ts) = Inl TypeError"
| "reduceFeature k acc (Some t # ts) = reduceFeature k (acc + orZero (readFeature t k)) ts"

definition avgFeature :: "js_prop \<Rightarrow> features option list \<Rightarrow> js_error + real option" where
  \<comment> \<open>\<^verbatim>\<open>reduce(...) / audioFeatures.length\<close>; on the empty list this is \<open>0 / 0\<close>, NaN.
      Sum and quotient are taken in the reals; the source takes them in doubles, so
      the two agree where no operation rounds, and statements about equal means are
      made at such values only.\<close>
  "avgFeature k fs =
     (case reduceFeature k 0 fs of
        Inl e \<Rightarrow> Inl e
      | Inr tot \<Rightarrow> Inr (if length fs = 0 then None else Some (tot / real (length fs))))"

definition numLess :: "real option \<Rightarrow> real option \<Rightarrow> bool" where
  \<comment> \<open>\<^verbatim>\<open>a < b\<close> on numbers: false when either side is NaN\<close>
  "numLess a b = (case (a, b) of (Some x, Some y) \<Rightarrow> x < y | _ \<Rightarrow> False)"

definition determineWinner_cat :: "upstream \<Rightarrow> string \<Rightarrow> string \<Rightarrow> string \<Rightarrow> string async" where
  \<comment> \<open>The test \<^verbatim>\<open>!audioFeatures1 || !audioFeatures2\<close> is left out: both are arrays,
      which are truthy.\<close>
  "determineWinner_cat w playlist1Id playlist2Id category =
     (let featureKey = categoryMapping category
      in if featureKey = Undefined then resolve ''Invalid category''
         else
           tryCatch
             (andThen (getPlaylistTracks_cat w playlist1Id) (\<lambda>tracks1.
              andThen (getPlaylistTracks_cat w playlist2Id) (\<lambda>tracks2.
                if length tracks1 = 0 \<or> length tracks2 = 0
                then resolve ''One of the playlists has no tracks.''
                else
                  andThen (getAudioFeatures w tracks1) (\<lambda>audioFeatures1.
                  andThen (getAudioFeatures w tracks2) (\<lambda>audioFeatures2.
                    case avgFeature featureKey audioFeatures1 of
                      Inl e \<Rightarrow> throw e
                    | Inr avgFeature1 \<Rightarrow>
                        (case avgFeature featureKey audioFeatures2 of
                           Inl e \<Rightarrow> throw e
                         | Inr avgFeature2 \<Rightarrow>
                             if category = ''Sadder''
                             then resolve (if numLess avgFeature1 avgFeature2
                                           then ''Playlist 1 is sadder''
                                           else ''Playlist 2 is sadder'')
                             else resolve (if numLess avgFeature2 avgFeature1
                                           then ''Playlist 1 is more '' @ toLowerCase category
                                           else ''Playlist 2 is more '' @ toLowerCase category)))))))
             (\<lambda>error s.
                (Inl (Error ''Failed to determine winner''),
                 console_error ''Error in determineWinner:'' s)))"

definition handleSubmit_cat ::
  "upstream \<Rightarrow> string \<Rightarrow> string \<Rightarrow> string \<Rightarrow> state \<Rightarrow> string \<times> state" where
  \<comment> \<open>the value left in the React state \<^verbatim>\<open>result\<close>. After the \<^verbatim>\<open>try\<close> statement the handler
      reads the undeclared variable \<^verbatim>\<open>response\<close> and ends with a ReferenceError; the
      result has been set by then.\<close>
  "handleSubmit_cat w playlist1 playlist2 category s =
     (if playlist1 = [] \<or> playlist2 = [] \<or> category = []
      then (''Please fill in all fields!'', s)
      else
        (case extractPlaylistId playlist1 s of (playlist1Id, s1) \<Rightarrow>
         case extractPlaylistId playlist2 s1 of (playlist2Id, s2) \<Rightarrow>
           (case (playlist1Id, playlist2Id) of
              (Some id1, Some id2) \<Rightarrow>
                if id1 = [] \<or> id2 = [] then (''Invalid playlist link!'', s2)
                else
                  (case determineWinner_cat w id1 id2 category s2 of
                     (Inr winner, s3) \<Rightarrow> (winner, s3)
                   | (Inl error, s3) \<Rightarrow>
                       (''Error fetching playlist data!'',
                        console_error ''Error in handleSubmit:'' s3))
            | _ \<Rightarrow> (''Invalid playlist link!'', s2))))"

subsection \<open>Notions of the specification\<close>

text \<open>
  \<open>embeds url pre g post\<close>: the URL contains the pattern \<^verbatim>\<open>playlist/<22 alphanumeric
  characters>\<close>, with \<open>pre\<close> before it, the identifier \<open>g\<close> and \<open>post\<close> after it.
  \<open>indexOf p u\<close> is the index of the first occurrence of \<open>p\<close> in \<open>u\<close>.
\<close>

definition embeds :: "string \<Rightarrow> string \<Rightarrow> string \<Rightarrow> string \<Rightarrow> bool" where
  "embeds url pre g post \<longleftrightarrow>
     url = pre @ ''playlist/'' @ g @ post \<and> length g = 22 \<and> list_all isAlnum g"

fun indexOf :: "string \<Rightarrow> string \<Rightarrow> nat option" where
  "indexOf p [] = (if p = [] then Some 0 else None)"
| "indexOf p (c # cs) =
     (if take (length p) (c # cs) = p then Some 0 else map_option Suc (indexOf p cs))"

text \<open>
  \<open>cachedAndFresh s\<close>: a cached token exists (a non-empty string, as the source's
  truth test has it) and its stored expiry is strictly in the future.
  \<open>cachePaired s\<close>: the two module variables are set together, as they are initially
  and after every call of \<^verbatim>\<open>getToken\<close>.
\<close>

definition cachedAndFresh :: "state \<Rightarrow> bool" where
  "cachedAndFresh s =
     (case (token s, tokenExpirationTime s) of
        (Some t, Some e) \<Rightarrow> t \<noteq> [] \<and> clock s < e
      | _ \<Rightarrow> False)"

definition cachePaired :: "state \<Rightarrow> bool" where
  "cachePaired s = (tokenExpirationTime s = None \<longrightarrow> token s = None)"

text \<open>
  \<open>highlighted u\<close>: the result that attaches the display name and the cover image of
  the playlist \<open>u\<close> and names it in the message.
\<close>

definition highlighted :: "playlist_info \<Rightarrow> result" where
  "highlighted u =
     \<lparr>res_name = Some (name u), res_image = Some (image u),
      message = undergroundMessage (name u)\<rparr>"

subsection \<open>Example inputs\<close>

text \<open>
  Playlist A has three tracks of popularity 10, 20, 30 and valence 0.1, 0.2, 0.3;
  playlist B two tracks of popularity 80, 90 and valence 0.7, 0.9; playlist C a single
  entry whose track has no identifier (as a local file has); playlist D two tracks of
  popularity 15, 25 and valence 0.5, 0.5, so that its mean popularity equals that of
  A; playlist E has no entries; playlist F three tracks of valence 0.25, 0.5, 0.75, so
  that its mean valence 0.5 equals that of D. The valences of D and F, their partial
  sums 0.25, 0.75, 1.5 and 0.5, 1 and the quotients 1.5 / 3 and 1 / 2 are binary
  fractions: JavaScript's doubles compute them without rounding.
\<close>

definition playlistA :: string where "playlistA = ''37i9dQZF1DXcBWIGoYBM5M''"
definition playlistB :: string where "playlistB = ''37i9dQZF1DX0XUsuxWHRQd''"
definition playlistC :: string where "playlistC = ''37i9dQZF1DWXRqgorJj26U''"
definition playlistD :: string where "playlistD = ''37i9dQZF1DX4sWSpwq3LiO''"
definition playlistE :: string where "playlistE = ''37i9dQZF1DX1lVhptIYRda''"
definition playlistF :: string where "playlistF = ''37i9dQZF1DX2sUQwD7tbmL''"

definition mkItem :: "string \<Rightarrow> real \<Rightarrow> item" where
  "mkItem i p = \<lparr>item_track = Some \<lparr>raw_id = Some i, raw_popularity = Some p\<rparr>\<rparr>"

definition valence :: "real \<Rightarrow> features option" where
  "valence v = Some (\<lambda>k. if k = ''valence'' then Some v else None)"

definition tracksA :: "string list" where
  "tracksA = [''4uLU6hMCjMI75M1A2tKUQC'', ''7ouMYWpwJ422jRcDASZB7P'', ''2takcwOaAZWiXQijPHIx7B'']"

definition tracksB :: "string list" where
  "tracksB = [''0VjIjW4GlUZAMYd2vXMi3b'', ''3n3Ppam7vgaVa1iaRUc9Lp'']"

definition tracksD :: "string list" where
  "tracksD = [''6habFhsOp2NvshLv26DqMb'', ''1301WleyT98MSxVHPZCA6M'']"

definition tracksF :: "string list" where
  "tracksF = [''5ChkMS8OtdzJeqyybCc9R5'', ''3AJwUDP919kvQ9QcozQPxg'', ''6rqhFgbbKwnb9MLmUQDhG6'']"

definition w0 :: upstream where
  "w0 =
     \<lparr>token_ep = (\<lambda>n. Ok \<lparr>access_token = ''BQDnew'', expires_in = 3600\<rparr>),
      tracks_ep = (\<lambda>n tok pid.
        if pid = playlistA then Ok \<lparr>items = Some (map2 mkItem tracksA [10, 20, 30])\<rparr>
        else if pid = playlistB then Ok \<lparr>items = Some (map2 mkItem tracksB [80, 90])\<rparr>
        else if pid = playlistC
        then Ok \<lparr>items = Some [\<lparr>item_track = Some \<lparr>raw_id = None, raw_popularity = Some 50\<rparr>\<rparr>]\<rparr>
        else if pid = playlistD then Ok \<lparr>items = Some (map2 mkItem tracksD [15, 25])\<rparr>
        else if pid = playlistE then Ok \<lparr>items = Some []\<rparr>
        else if pid = playlistF then Ok \<lparr>items = Some (map2 mkItem tracksF [40, 50, 60])\<rparr>
        else Rejected (Some 404)),
      info_ep = (\<lambda>n tok pid.
        if pid = playlistA
        then Ok \<lparr>info_name = ''Deep Cuts'', images = Some [Some ''https://i.scdn.co/image/a'']\<rparr>
        else if pid = playlistB
        then Ok \<lparr>info_name = ''Top Hits'', images = Some [Some ''https://i.scdn.co/image/b'']\<rparr>
        else if pid = playlistD
        then Ok \<lparr>info_name = ''Side Roads'', images = Some []\<rparr>
        else Rejected (Some 404)),
      features_ep = (\<lambda>n tok ids.
        if ids = tracksA
        then Ok \<lparr>audio_features = Some [valence (1/10), valence (1/5), valence (3/10)]\<rparr>
        else if ids = tracksB
        then Ok \<lparr>audio_features = Some [valence (7/10), valence (9/10)]\<rparr>
        else if ids = tracksD
        then Ok \<lparr>audio_features = Some [valence (1/2), valence (1/2)]\<rparr>
        else if ids = tracksF
        then Ok \<lparr>audio_features = Some [valence (1/4), valence (1/2), valence (3/4)]\<rparr>
        else Rejected (Some 404)),
      latency = (\<lambda>n. 100)\<rparr>"

definition rejecting :: "nat \<Rightarrow> upstream" where
  \<comment> \<open>as \<open>w0\<close>, but the audio-features endpoint answers with the given error status\<close>
  "rejecting st = w0\<lparr>features_ep := (\<lambda>n tok ids. Rejected (Some st))\<rparr>"

definition sFresh :: state where
  "sFresh = \<lparr>token = Some ''BQDcached'', tokenExpirationTime = Some 5000, clock = 1000,
              requests = [], console = []\<rparr>"

definition sStale :: state where
  "sStale = \<lparr>token = Some ''BQDcached'', tokenExpirationTime = Some 5000, clock = 6000,
              requests = [], console = []\<rparr>"

definition sAfter :: "request list \<Rightarrow> state" where
  \<comment> \<open>the state that \<open>w0\<close> leaves when the listed requests have been issued from \<open>s0\<close>\<close>
  "sAfter rs = \<lparr>token = Some ''BQDnew'', tokenExpirationTime = Some 3601100,
                  clock = 1000 + 100 * int (length rs), requests = rs, console = []\<rparr>"

definition s0 :: state where
  "s0 = \<lparr>token = None, tokenExpirationTime = None, clock = 1000, requests = [], console = []\<rparr>"

section \<open>Properties\<close>

subsection \<open>Identifier extraction\<close>


lemma matchHere_Some_iff:
  "matchHere s = Some g \<longleftrightarrow> (\<exists>post. embeds s [] g post)"
proof
  assume h: "matchHere s = Some g"
  then have a: "take 9 s = ''playlist/''" and b: "g = take 22 (drop 9 s)"
    and c: "length g = 22" and d: "list_all isAlnum g"
    by (auto simp: matchHere_def Let_def split: if_splits)
  have "s = take 9 s @ take 22 (drop 9 s) @ drop 22 (drop 9 s)"
    by (simp only: append_take_drop_id)
  then have "s = ''playlist/'' @ g @ drop 22 (drop 9 s)"
    using a b by simp
  then show "\<exists>post. embeds s [] g post"
    using c d unfolding embeds_def by auto
next
  assume "\<exists>post. embeds s [] g post"
  then obtain post where "s = ''playlist/'' @ g @ post" "length g = 22" "list_all isAlnum g"
    unfolding embeds_def by auto
  then show "matchHere s = Some g"
    by (simp add: matchHere_def Let_def)
qed

lemma matchHere_None_iff:
  "matchHere s = None \<longleftrightarrow> (\<forall>g post. \<not> embeds s [] g post)"
proof (cases "matchHere s")
  case None
  then show ?thesis using matchHere_Some_iff [of s] by auto
next
  case (Some g)
  then show ?thesis using matchHere_Some_iff [of s g] by auto
qed

lemma url_match_skip:
  "(\<forall>j < length pre. matchHere (drop j (pre @ s)) = None) \<Longrightarrow> url_match (pre @ s) = url_match s"
proof (induction pre)
  case Nil
  then show ?case by simp
next
  case (Cons c pre)
  have h0: "matchHere (c # pre @ s) = None"
    using Cons.prems [rule_format, of 0] by simp
  have "\<forall>j < length pre. matchHere (drop j (pre @ s)) = None"
  proof (intro allI impI)
    fix j assume "j < length pre"
    then show "matchHere (drop j (pre @ s)) = None"
      using Cons.prems [rule_format, of "Suc j"] by simp
  qed
  then show ?case using Cons.IH h0 by simp
qed

lemma url_match_here: "matchHere s = Some g \<Longrightarrow> url_match s = Some g"
  by (cases s) (auto simp: matchHere_def Let_def)

lemma url_match_Some:
  "url_match u = Some g \<Longrightarrow>
     \<exists>i \<le> length u. matchHere (drop i u) = Some g \<and> (\<forall>j < i. matchHere (drop j u) = None)"
proof (induction u)
  case Nil
  then show ?case by simp
next
  case (Cons c cs)
  show ?case
  proof (cases "matchHere (c # cs)")
    case (Some g')
    with Cons.prems have "g' = g" by simp
    with Some show ?thesis by (intro exI [of _ 0]) simp
  next
    case None
    with Cons.prems have "url_match cs = Some g" by simp
    from Cons.IH [OF this] obtain i where i: "i \<le> length cs" "matchHere (drop i cs) = Some g"
      "\<forall>j < i. matchHere (drop j cs) = None" by blast
    have "\<forall>j < Suc i. matchHere (drop j (c # cs)) = None"
    proof (intro allI impI)
      fix j assume "j < Suc i"
      then show "matchHere (drop j (c # cs)) = None"
        using None i(3) by (cases j) auto
    qed
    with i show ?thesis by (intro exI [of _ "Suc i"]) simp
  qed
qed

lemma url_match_None:
  "url_match u = None \<Longrightarrow> matchHere (drop j u) = None"
proof (induction u arbitrary: j)
  case Nil
  then show ?case by (simp add: matchHere_def)
next
  case (Cons c cs)
  then show ?case by (cases j) (auto split: option.splits)
qed

lemma embeds_drop: "embeds url pre g post \<Longrightarrow> matchHere (drop (length pre) url) = Some g"
  unfolding matchHere_Some_iff by (auto simp: embeds_def)

lemma matchHere_embeds:
  "matchHere (drop i url) = Some g \<Longrightarrow> i \<le> length url \<Longrightarrow> \<exists>post. embeds url (take i url) g post"
proof -
  assume "matchHere (drop i url) = Some g" and "i \<le> length url"
  then obtain post where "drop i url = ''playlist/'' @ g @ post" "length g = 22" "list_all isAlnum g"
    unfolding matchHere_Some_iff embeds_def by auto
  moreover have "url = take i url @ drop i url" by simp
  ultimately show ?thesis unfolding embeds_def by metis
qed


lemma url_match_Some_iff:
  "url_match url = Some g \<longleftrightarrow>
     (\<exists>pre post. embeds url pre g post \<and>
        (\<forall>pre' g' post'. embeds url pre' g' post' \<longrightarrow> length pre \<le> length pre'))"
proof
  assume "url_match url = Some g"
  from url_match_Some [OF this] obtain i where i: "i \<le> length url"
    "matchHere (drop i url) = Some g" "\<forall>j < i. matchHere (drop j url) = None" by blast
  from matchHere_embeds [OF i(2) i(1)] obtain post where e: "embeds url (take i url) g post" ..
  have "length (take i url) \<le> length pre'" if "embeds url pre' g' post'" for pre' g' post'
  proof (rule ccontr)
    assume "\<not> length (take i url) \<le> length pre'"
    then have "length pre' < i" using i(1) by simp
    with i(3) have "matchHere (drop (length pre') url) = None" by blast
    with embeds_drop [OF that] show False by simp
  qed
  with e show "\<exists>pre post. embeds url pre g post \<and>
        (\<forall>pre' g' post'. embeds url pre' g' post' \<longrightarrow> length pre \<le> length pre')"
    by blast
next
  assume "\<exists>pre post. embeds url pre g post \<and>
        (\<forall>pre' g' post'. embeds url pre' g' post' \<longrightarrow> length pre \<le> length pre')"
  then obtain pre post where e: "embeds url pre g post"
    and least: "\<And>pre' g' post'. embeds url pre' g' post' \<Longrightarrow> length pre \<le> length pre'"
    by blast
  from e have u: "url = pre @ drop (length pre) url" by (simp add: embeds_def)
  have "matchHere (drop j (pre @ drop (length pre) url)) = None" if "j < length pre" for j
  proof (cases "matchHere (drop j url)")
    case None
    then show ?thesis using u by simp
  next
    case (Some g')
    from that u have "j \<le> length url" by (metis le_add1 length_append less_or_eq_imp_le order_trans)
    from matchHere_embeds [OF Some this] obtain post' where "embeds url (take j url) g' post'" ..
    from least [OF this] that show ?thesis by simp
  qed
  then have "url_match (pre @ drop (length pre) url) = url_match (drop (length pre) url)"
    by (intro url_match_skip) blast
  then show "url_match url = Some g"
    using u url_match_here [OF embeds_drop [OF e]] by simp
qed

lemma url_match_None_iff:
  "url_match url = None \<longleftrightarrow> (\<forall>pre g post. \<not> embeds url pre g post)"
proof
  assume n: "url_match url = None"
  show "\<forall>pre g post. \<not> embeds url pre g post"
  proof (intro allI notI)
    fix pre g post assume "embeds url pre g post"
    from embeds_drop [OF this] url_match_None [OF n, of "length pre"] show False by simp
  qed
next
  assume a: "\<forall>pre g post. \<not> embeds url pre g post"
  show "url_match url = None"
  proof (cases "url_match url")
    case None
    then show ?thesis .
  next
    case (Some g)
    then show ?thesis using a url_match_Some_iff [of url g] by blast
  qed
qed

lemma handleSubmit_rejects:
  "url_match playlist1 = None \<or> url_match playlist2 = None \<Longrightarrow>
     requests (snd (handleSubmit w playlist1 playlist2 s)) = requests s \<and>
     (fst (handleSubmit w playlist1 playlist2 s) = plain ''Invalid playlist link!'' \<or>
      fst (handleSubmit w playlist1 playlist2 s) = plain ''Please fill in all fields!'')"
  by (auto simp: handleSubmit_def extractPlaylistId_def console_error_def split: option.splits)

lemma handleSubmit_cat_rejects:
  "url_match playlist1 = None \<or> url_match playlist2 = None \<Longrightarrow>
     requests (snd (handleSubmit_cat w playlist1 playlist2 category s)) = requests s \<and>
     (fst (handleSubmit_cat w playlist1 playlist2 category s) = ''Invalid playlist link!'' \<or>
      fst (handleSubmit_cat w playlist1 playlist2 category s) = ''Please fill in all fields!'')"
  by (auto simp: handleSubmit_cat_def extractPlaylistId_def console_error_def split: option.splits)

lemma fst_extractPlaylistId: "fst (extractPlaylistId url s) = url_match url"
  by (simp add: extractPlaylistId_def split: option.splits)

text \<open>
  Claim C7. Extraction returns an identifier exactly when the URL contains the pattern
  \<^verbatim>\<open>playlist/<22 alphanumeric characters>\<close>, and then it is the identifier of the
  leftmost occurrence; a URL without the pattern gives no match, and the submit
  handler of either version then ends without issuing any request.
\<close>

theorem extractPlaylistId_pattern:
  "(fst (extractPlaylistId url s) = Some g \<longleftrightarrow>
      (\<exists>pre post. embeds url pre g post \<and>
         (\<forall>pre' g' post'. embeds url pre' g' post' \<longrightarrow> length pre \<le> length pre'))) \<and>
   (fst (extractPlaylistId url s) = None \<longleftrightarrow> (\<forall>pre g post. \<not> embeds url pre g post)) \<and>
   ((\<forall>pre g post. \<not> embeds url pre g post) \<longrightarrow>
      (\<forall>w other category.
         requests (snd (handleSubmit w url other s)) = requests s \<and>
         requests (snd (handleSubmit w other url s)) = requests s \<and>
         requests (snd (handleSubmit_cat w url other category s)) = requests s \<and>
         requests (snd (handleSubmit_cat w other url category s)) = requests s))"
proof (intro conjI impI allI)
  show "fst (extractPlaylistId url s) = Some g \<longleftrightarrow>
      (\<exists>pre post. embeds url pre g post \<and>
         (\<forall>pre' g' post'. embeds url pre' g' post' \<longrightarrow> length pre \<le> length pre'))"
    by (simp only: fst_extractPlaylistId url_match_Some_iff)
  show "fst (extractPlaylistId url s) = None \<longleftrightarrow> (\<forall>pre g post. \<not> embeds url pre g post)"
    by (simp only: fst_extractPlaylistId url_match_None_iff)
next
  fix w other category
  assume "\<forall>pre g post. \<not> embeds url pre g post"
  then have n: "url_match url = None" using url_match_None_iff [of url] by blast
  show "requests (snd (handleSubmit w url other s)) = requests s"
    using handleSubmit_rejects [of url other w s] n by simp
  show "requests (snd (handleSubmit w other url s)) = requests s"
    using handleSubmit_rejects [of other url w s] n by simp
  show "requests (snd (handleSubmit_cat w url other category s)) = requests s"
    using handleSubmit_cat_rejects [of url other w category s] n by simp
  show "requests (snd (handleSubmit_cat w other url category s)) = requests s"
    using handleSubmit_cat_rejects [of other url w category s] n by simp
qed

lemma indexOf_Some_aux:
  "indexOf p u = Some i \<Longrightarrow>
     i \<le> length u \<and> take (length p) (drop i u) = p \<and> (\<forall>j < i. take (length p) (drop j u) \<noteq> p)"
proof (induction u arbitrary: i)
  case Nil
  then show ?case by (simp split: if_splits)
next
  case (Cons c cs)
  show ?case
  proof (cases "take (length p) (c # cs) = p")
    case True
    with Cons.prems show ?thesis by simp
  next
    case False
    with Cons.prems obtain k where k: "indexOf p cs = Some k" "i = Suc k" by auto
    from Cons.IH [OF k(1)] have ih: "k \<le> length cs" "take (length p) (drop k cs) = p"
      "\<forall>j < k. take (length p) (drop j cs) \<noteq> p" by auto
    have "take (length p) (drop j (c # cs)) \<noteq> p" if "j < Suc k" for j
      using that False ih(3) by (cases j) auto
    with ih k show ?thesis by simp
  qed
qed

lemma indexOf_Some:
  "indexOf p u = Some i \<Longrightarrow> n = length p \<Longrightarrow>
     i \<le> length u \<and> take n (drop i u) = p \<and> (\<forall>j < i. take n (drop j u) \<noteq> p)"
  using indexOf_Some_aux [of p u i] by simp

lemma matchHere_needs_prefix: "take 9 s \<noteq> ''playlist/'' \<Longrightarrow> matchHere s = None"
  by (simp add: matchHere_def Let_def)

lemma take_takeWhile:
  assumes "n \<le> length (takeWhile P xs)"
  shows "take n xs = take n (takeWhile P xs)"
proof -
  have "take n (takeWhile P xs @ dropWhile P xs) = take n (takeWhile P xs)"
    using assms by (simp del: takeWhile_dropWhile_id)
  then show ?thesis by (simp only: takeWhile_dropWhile_id)
qed

lemma list_all_take_takeWhile: "list_all P (take n (takeWhile P xs))"
  by (auto simp: list_all_iff dest: in_set_takeD set_takeWhileD)

text \<open>
  Claim C10. When the first occurrence of \<^verbatim>\<open>playlist/\<close> is followed by a run of more
  than 22 alphanumeric characters, the URL is not rejected: extraction returns the
  first 22 characters of the run.
\<close>

theorem extractPlaylistId_long_run:
  assumes "indexOf ''playlist/'' url = Some i"
    and "run = takeWhile isAlnum (drop (i + 9) url)"
    and "22 < length run"
  shows "fst (extractPlaylistId url s) = Some (take 22 run)"
proof -
  have "9 = length ''playlist/''" by simp
  from indexOf_Some [OF assms(1) this]
  have i: "i \<le> length url" "take 9 (drop i url) = ''playlist/''"
    "\<forall>j < i. take 9 (drop j url) \<noteq> ''playlist/''" by simp_all
  have d: "drop 9 (drop i url) = drop (i + 9) url" by (simp add: add.commute)
  have r3: "take 22 (drop (i + 9) url) = take 22 run"
    unfolding assms(2) using assms(2,3) by (intro take_takeWhile) simp
  have r1: "length (take 22 run) = 22" using assms(3) by simp
  have r2: "list_all isAlnum (take 22 run)"
    unfolding assms(2) by (rule list_all_take_takeWhile)
  have here: "matchHere (drop i url) = Some (take 22 run)"
    unfolding matchHere_def Let_def d r3 using i(2) r1 r2 by simp
  have "\<forall>j < length (take i url). matchHere (drop j (take i url @ drop i url)) = None"
    using i(1,3) by (simp add: matchHere_needs_prefix)
  from url_match_skip [OF this] have "url_match url = url_match (drop i url)" by simp
  with url_match_here [OF here] show ?thesis by (simp add: fst_extractPlaylistId)
qed

theorem extractPlaylistId_long_run_witness:
  "indexOf ''playlist/'' ''https://open.spotify.com/playlist/37i9dQZF1DXcBWIGoYBM5Mabcd?si=1'' = Some 25 \<and>
   takeWhile isAlnum (drop (25 + 9) ''https://open.spotify.com/playlist/37i9dQZF1DXcBWIGoYBM5Mabcd?si=1'')
     = ''37i9dQZF1DXcBWIGoYBM5Mabcd'' \<and>
   22 < length ''37i9dQZF1DXcBWIGoYBM5Mabcd'' \<and>
   fst (extractPlaylistId ''https://open.spotify.com/playlist/37i9dQZF1DXcBWIGoYBM5Mabcd?si=1'' s0)
     = Some ''37i9dQZF1DXcBWIGoYBM5M''"
proof -
  have a: "indexOf ''playlist/'' ''https://open.spotify.com/playlist/37i9dQZF1DXcBWIGoYBM5Mabcd?si=1'' = Some 25"
    by simp
  have b: "''37i9dQZF1DXcBWIGoYBM5Mabcd'' =
    takeWhile isAlnum (drop (25 + 9) ''https://open.spotify.com/playlist/37i9dQZF1DXcBWIGoYBM5Mabcd?si=1'')"
    by (simp add: isAlnum_def)
  have c: "22 < length ''37i9dQZF1DXcBWIGoYBM5Mabcd''" by simp
  have d: "take 22 ''37i9dQZF1DXcBWIGoYBM5Mabcd'' = ''37i9dQZF1DXcBWIGoYBM5M''" by simp
  show ?thesis
  proof (intro conjI)
    show "fst (extractPlaylistId ''https://open.spotify.com/playlist/37i9dQZF1DXcBWIGoYBM5Mabcd?si=1'' s0)
       = Some ''37i9dQZF1DXcBWIGoYBM5M''"
      using extractPlaylistId_long_run [OF a b c, of s0] by (simp only: d)
  qed (rule a, rule b [symmetric], rule c)
qed

theorem extractPlaylistId_pattern_witness:
  "fst (extractPlaylistId ''https://open.spotify.com/playlist/37i9dQZF1DXcBWIGoYBM5M?si=0a1b'' s0)
     = Some ''37i9dQZF1DXcBWIGoYBM5M'' \<and>
   (\<exists>pre post. embeds ''https://open.spotify.com/playlist/37i9dQZF1DXcBWIGoYBM5M?si=0a1b''
       pre ''37i9dQZF1DXcBWIGoYBM5M'' post) \<and>
   fst (extractPlaylistId ''https://open.spotify.com/album/37i9dQZF1DXcBWIGoYBM5M'' s0) = None \<and>
   (\<forall>pre g post. \<not> embeds ''https://open.spotify.com/album/37i9dQZF1DXcBWIGoYBM5M'' pre g post) \<and>
   (\<forall>w. requests (snd (handleSubmit w ''https://open.spotify.com/album/37i9dQZF1DXcBWIGoYBM5M''
          ''https://open.spotify.com/playlist/37i9dQZF1DXcBWIGoYBM5M?si=0a1b'' s0)) = [])"
proof -
  have a: "fst (extractPlaylistId ''https://open.spotify.com/playlist/37i9dQZF1DXcBWIGoYBM5M?si=0a1b'' s0)
     = Some ''37i9dQZF1DXcBWIGoYBM5M''"
    by (simp add: fst_extractPlaylistId matchHere_def isAlnum_def)
  have b: "fst (extractPlaylistId ''https://open.spotify.com/album/37i9dQZF1DXcBWIGoYBM5M'' s0) = None"
    by (simp add: fst_extractPlaylistId matchHere_def isAlnum_def)
  have r: "requests s0 = []" by (simp add: s0_def)
  note t1 = extractPlaylistId_pattern
    [of "''https://open.spotify.com/playlist/37i9dQZF1DXcBWIGoYBM5M?si=0a1b''" s0 "''37i9dQZF1DXcBWIGoYBM5M''"]
  note t2 = extractPlaylistId_pattern
    [of "''https://open.spotify.com/album/37i9dQZF1DXcBWIGoYBM5M''" s0 "[]"]
  from t1 a have c: "\<exists>pre post. embeds ''https://open.spotify.com/playlist/37i9dQZF1DXcBWIGoYBM5M?si=0a1b''
       pre ''37i9dQZF1DXcBWIGoYBM5M'' post" by blast
  from t2 b have d: "\<forall>pre g post. \<not> embeds ''https://open.spotify.com/album/37i9dQZF1DXcBWIGoYBM5M'' pre g post"
    by blast
  from t2 d r have e: "\<forall>w. requests (snd (handleSubmit w ''https://open.spotify.com/album/37i9dQZF1DXcBWIGoYBM5M''
          ''https://open.spotify.com/playlist/37i9dQZF1DXcBWIGoYBM5M?si=0a1b'' s0)) = []"
    by metis
  from a b c d e show ?thesis by blast
qed

subsection \<open>The credential cache\<close>

lemmas run_defs =
  getToken_def tokenExchange_def tokenValid_def truthy_def tryCatch_def andThen_def
  await_http_def issue_def console_error_def resolve_def throw_def orEmpty_def orZero_def Let_def

lemmas ex_defs = w0_def s0_def playlistA_def playlistB_def playlistC_def playlistD_def
  playlistE_def playlistF_def tracksF_def
  tracksA_def tracksB_def tracksD_def mkItem_def valence_def sAfter_def

lemma tokenValid_iff: "cachePaired s \<Longrightarrow> tokenValid s = cachedAndFresh s"
  by (auto simp: cachePaired_def tokenValid_def cachedAndFresh_def truthy_def split: option.splits)

lemma tokenExchange_Ok:
  "token_ep w (length (requests s)) = Ok d \<Longrightarrow>
   tokenExchange w s =
     (Inr (access_token d),
      (issue w TokenReq s)\<lparr>token := Some (access_token d),
         tokenExpirationTime := Some (clock (issue w TokenReq s) + expires_in d * 1000)\<rparr>)"
  by (simp add: tokenExchange_def tryCatch_def andThen_def await_http_def)

lemma tokenExchange_Rejected:
  "token_ep w (length (requests s)) = Rejected st \<Longrightarrow>
   tokenExchange w s =
     (Inl (Error ''Failed to get access token''),
      console_error ''Error fetching token:'' (issue w TokenReq s))"
  by (simp add: tokenExchange_def tryCatch_def andThen_def await_http_def)

lemma getToken_valid: "tokenValid s \<Longrightarrow> \<exists>t. token s = Some t \<and> getToken w s = (Inr t, s)"
  by (auto simp: getToken_def tokenValid_def truthy_def split: option.splits)

lemma getToken_invalid: "\<not> tokenValid s \<Longrightarrow> getToken w s = tokenExchange w s"
  by (simp add: getToken_def split: option.splits)

text \<open>
  Claim C8. With a cached token whose stored expiry is strictly in the future,
  \<^verbatim>\<open>getToken\<close> returns the cached token and leaves the whole state, the list of
  requests included, as it was. Otherwise exactly one token request is issued; when
  it succeeds the returned token is cached with the expiry \<open>now + expires_in * 1000\<close>
  milliseconds, \<open>now\<close> being the time the response arrives, and when it fails the
  call throws and the cache keeps its content.
\<close>

theorem getToken_cache:
  assumes "cachePaired s"
  shows "(cachedAndFresh s \<longrightarrow> (\<exists>t. token s = Some t \<and> getToken w s = (Inr t, s))) \<and>
         (\<not> cachedAndFresh s \<longrightarrow>
            requests (snd (getToken w s)) = requests s @ [TokenReq] \<and>
            (case token_ep w (length (requests s)) of
               Ok d \<Rightarrow>
                 fst (getToken w s) = Inr (access_token d) \<and>
                 token (snd (getToken w s)) = Some (access_token d) \<and>
                 tokenExpirationTime (snd (getToken w s)) =
                   Some (clock (snd (getToken w s)) + expires_in d * 1000)
             | Rejected st \<Rightarrow>
                 fst (getToken w s) = Inl (Error ''Failed to get access token'') \<and>
                 token (snd (getToken w s)) = token s \<and>
                 tokenExpirationTime (snd (getToken w s)) = tokenExpirationTime s))"
proof (intro conjI impI)
  assume "cachedAndFresh s"
  with assms have "tokenValid s" by (simp add: tokenValid_iff)
  then show "\<exists>t. token s = Some t \<and> getToken w s = (Inr t, s)" by (rule getToken_valid)
next
  assume "\<not> cachedAndFresh s"
  with assms have g: "getToken w s = tokenExchange w s"
    by (simp add: tokenValid_iff getToken_invalid)
  show "requests (snd (getToken w s)) = requests s @ [TokenReq]"
    unfolding g
    by (cases "token_ep w (length (requests s))")
       (simp_all add: tokenExchange_Ok tokenExchange_Rejected issue_def console_error_def)
  show "case token_ep w (length (requests s)) of
               Ok d \<Rightarrow>
                 fst (getToken w s) = Inr (access_token d) \<and>
                 token (snd (getToken w s)) = Some (access_token d) \<and>
                 tokenExpirationTime (snd (getToken w s)) =
                   Some (clock (snd (getToken w s)) + expires_in d * 1000)
             | Rejected st \<Rightarrow>
                 fst (getToken w s) = Inl (Error ''Failed to get access token'') \<and>
                 token (snd (getToken w s)) = token s \<and>
                 tokenExpirationTime (snd (getToken w s)) = tokenExpirationTime s"
    unfolding g
    by (cases "token_ep w (length (requests s))")
       (simp_all add: tokenExchange_Ok tokenExchange_Rejected issue_def console_error_def)
qed

lemma cachePaired_getToken: "cachePaired s \<Longrightarrow> cachePaired (snd (getToken w s))"
  by (cases "tokenValid s"; cases "token_ep w (length (requests s))")
     (auto simp: getToken_invalid tokenExchange_Ok tokenExchange_Rejected cachePaired_def
        issue_def console_error_def dest: getToken_valid [of s w])

theorem getToken_cache_witness:
  "cachePaired sFresh \<and> cachedAndFresh sFresh \<and>
   getToken w0 sFresh = (Inr ''BQDcached'', sFresh) \<and>
   cachePaired sStale \<and> \<not> cachedAndFresh sStale \<and>
   requests (snd (getToken w0 sStale)) = [TokenReq] \<and>
   fst (getToken w0 sStale) = Inr ''BQDnew'' \<and>
   token (snd (getToken w0 sStale)) = Some ''BQDnew'' \<and>
   clock (snd (getToken w0 sStale)) = 6100 \<and>
   tokenExpirationTime (snd (getToken w0 sStale)) = Some (6100 + 3600 * 1000)"
proof -
  have p1: "cachePaired sFresh" and f1: "cachedAndFresh sFresh"
    by (simp_all add: cachePaired_def cachedAndFresh_def sFresh_def)
  have p2: "cachePaired sStale" and f2: "\<not> cachedAndFresh sStale"
    by (simp_all add: cachePaired_def cachedAndFresh_def sStale_def)
  have t: "token sFresh = Some ''BQDcached''" by (simp add: sFresh_def)
  have e: "token_ep w0 (length (requests sStale)) =
      Ok \<lparr>access_token = ''BQDnew'', expires_in = 3600\<rparr>"
    by (simp add: w0_def)
  have c: "clock (snd (getToken w0 sStale)) = 6100"
    by (simp add: run_defs w0_def sStale_def)
  have r: "requests sStale = []" by (simp add: sStale_def)
  from getToken_cache [OF p1, of w0] f1 t
  have a: "getToken w0 sFresh = (Inr ''BQDcached'', sFresh)" by auto
  from getToken_cache [OF p2, of w0] f2 e c r
  have b: "requests (snd (getToken w0 sStale)) = [TokenReq] \<and>
     fst (getToken w0 sStale) = Inr ''BQDnew'' \<and>
     token (snd (getToken w0 sStale)) = Some ''BQDnew'' \<and>
     tokenExpirationTime (snd (getToken w0 sStale)) = Some (6100 + 3600 * 1000)"
    by simp
  from p1 f1 a p2 f2 b c show ?thesis by simp
qed

subsection \<open>Means\<close>

lemma foldl_plus: "foldl (\<lambda>acc t. acc + f t) a xs = a + sum_list (map f xs)"
  for a :: real
  by (induction xs arbitrary: a) simp_all

lemma orZero_Some: "orZero (Some x) = x"
  by (simp add: orZero_def)

lemma orZero_None: "orZero None = 0"
  by (simp add: orZero_def)

lemma calculateAveragePopularity_mean:
  "tracks \<noteq> [] \<Longrightarrow>
   calculateAveragePopularity tracks =
     sum_list (map (\<lambda>t. orZero (popularity t)) tracks) / real (length tracks)"
  by (simp add: calculateAveragePopularity_def foldl_plus)

lemma reduceFeature_Some:
  "reduceFeature k a (map Some fs) = Inr (a + sum_list (map (\<lambda>f. orZero (readFeature f k)) fs))"
  by (induction fs arbitrary: a) simp_all

lemma avgFeature_mean:
  "fs \<noteq> [] \<Longrightarrow>
   avgFeature k (map Some fs) =
     Inr (Some (sum_list (map (\<lambda>f. orZero (readFeature f k)) fs) / real (length fs)))"
  by (simp add: avgFeature_def reduceFeature_Some)

lemma getAudioFeatures_nonempty:
  "fst (getAudioFeatures w ids s) = Inr afs \<Longrightarrow> afs \<noteq> []"
  by (auto simp: getAudioFeatures_def tryCatch_def andThen_def await_http_def resolve_def
      throw_def Let_def split: prod.splits sum.splits if_splits option.splits http.splits)

text \<open>
  Claim C6. The mean of a metric set is the arithmetic mean of the per-track values,
  a missing value counting as 0: \<open>(a + b + c) / 3\<close> for three values. On the empty set
  \<^verbatim>\<open>calculateAveragePopularity\<close> returns 0; the category version never takes the mean
  of an empty set, because \<^verbatim>\<open>getAudioFeatures\<close> does not return one.
\<close>

theorem mean_computation:
  "calculateAveragePopularity [] = 0 \<and>
   (tracks \<noteq> [] \<longrightarrow>
      calculateAveragePopularity tracks =
        sum_list (map (\<lambda>t. orZero (popularity t)) tracks) / real (length tracks)) \<and>
   calculateAveragePopularity
     [\<lparr>track_id = i1, popularity = Some a\<rparr>, \<lparr>track_id = i2, popularity = Some b\<rparr>,
      \<lparr>track_id = i3, popularity = Some c\<rparr>] = (a + b + c) / 3 \<and>
   calculateAveragePopularity
     [\<lparr>track_id = i1, popularity = Some a\<rparr>, \<lparr>track_id = i2, popularity = None\<rparr>,
      \<lparr>track_id = i3, popularity = Some c\<rparr>] = (a + 0 + c) / 3 \<and>
   (fs \<noteq> [] \<longrightarrow>
      avgFeature k (map Some fs) =
        Inr (Some (sum_list (map (\<lambda>f. orZero (readFeature f k)) fs) / real (length fs)))) \<and>
   (readFeature f (Str key) = (case f key of None \<Rightarrow> None | Some v \<Rightarrow> Some v)) \<and>
   orZero None = 0 \<and> orZero (Some a) = a \<and>
   (fst (getAudioFeatures w ids s) = Inr afs \<longrightarrow> afs \<noteq> [])"
proof (intro conjI impI)
  show "calculateAveragePopularity [] = 0"
    by (simp add: calculateAveragePopularity_def)
  show "calculateAveragePopularity
     [\<lparr>track_id = i1, popularity = Some a\<rparr>, \<lparr>track_id = i2, popularity = Some b\<rparr>,
      \<lparr>track_id = i3, popularity = Some c\<rparr>] = (a + b + c) / 3"
    by (simp add: calculateAveragePopularity_mean orZero_Some)
  show "calculateAveragePopularity
     [\<lparr>track_id = i1, popularity = Some a\<rparr>, \<lparr>track_id = i2, popularity = None\<rparr>,
      \<lparr>track_id = i3, popularity = Some c\<rparr>] = (a + 0 + c) / 3"
    by (simp add: calculateAveragePopularity_mean orZero_Some orZero_None)
  show "readFeature f (Str key) = (case f key of None \<Rightarrow> None | Some v \<Rightarrow> Some v)"
    by (simp add: readFeature_def split: option.splits)
  show "orZero None = 0" by (rule orZero_None)
  show "orZero (Some a) = a" by (rule orZero_Some)
next
  assume "tracks \<noteq> []"
  then show "calculateAveragePopularity tracks =
        sum_list (map (\<lambda>t. orZero (popularity t)) tracks) / real (length tracks)"
    by (rule calculateAveragePopularity_mean)
next
  assume "fs \<noteq> []"
  then show "avgFeature k (map Some fs) =
        Inr (Some (sum_list (map (\<lambda>f. orZero (readFeature f k)) fs) / real (length fs)))"
    by (rule avgFeature_mean)
next
  assume "fst (getAudioFeatures w ids s) = Inr afs"
  then show "afs \<noteq> []" by (rule getAudioFeatures_nonempty)
qed

theorem mean_computation_witness:
  "calculateAveragePopularity
     [\<lparr>track_id = ''a'', popularity = Some 10\<rparr>, \<lparr>track_id = ''b'', popularity = Some 20\<rparr>,
      \<lparr>track_id = ''c'', popularity = Some 30\<rparr>] = 20 \<and>
   avgFeature (Str ''valence'') [valence (1/10), valence (1/5), valence (3/10)] = Inr (Some (1/5)) \<and>
   fst (getAudioFeatures w0 tracksA s0) = Inr [valence (1/10), valence (1/5), valence (3/10)] \<and>
   [valence (1/10), valence (1/5), valence (3/10)] \<noteq> []"
proof -
  let ?ts = "[\<lparr>track_id = ''a'', popularity = Some 10\<rparr>, \<lparr>track_id = ''b'', popularity = Some 20\<rparr>,
      \<lparr>track_id = ''c'', popularity = Some 30\<rparr>]"
  let ?fs = "[\<lambda>k. if k = ''valence'' then Some (1/10) else None,
      \<lambda>k. if k = ''valence'' then Some (1/5) else None,
      \<lambda>k. if k = ''valence'' then Some (3/10) else (None :: real option)]"
  have g: "fst (getAudioFeatures w0 tracksA s0) = Inr [valence (1/10), valence (1/5), valence (3/10)]"
    by (simp add: run_defs ex_defs getAudioFeatures_def)
  have m: "map Some ?fs = [valence (1/10), valence (1/5), valence (3/10)]"
    by (simp add: valence_def)
  note t = mean_computation [where tracks = ?ts and fs = ?fs and k = "Str ''valence''"
      and w = w0 and ids = tracksA and s = s0
      and afs = "[valence (1/10), valence (1/5), valence (3/10)]"]
  from t have "calculateAveragePopularity ?ts = 20"
    by (simp add: orZero_def)
  moreover from t m have "avgFeature (Str ''valence'') [valence (1/10), valence (1/5), valence (3/10)]
      = Inr (Some (1/5))"
    by (simp add: orZero_def readFeature_def)
  moreover from t g have "[valence (1/10), valence (1/5), valence (3/10)] \<noteq> []"
    by blast
  ultimately show ?thesis using g by blast
qed

subsection \<open>The popularity comparison\<close>

lemma determineWinner_result:
  assumes "getPlaylistTracks w p1 s = (Inr tracks1, s1)"
    and "getPlaylistTracks w p2 s1 = (Inr tracks2, s2)"
    and "getPlaylistInfo w p1 s2 = (Inr info1, s3)"
    and "getPlaylistInfo w p2 s3 = (Inr info2, s4)"
    and "tracks1 \<noteq> []" and "tracks2 \<noteq> []"
  shows "determineWinner w p1 p2 s =
     (Inr (if calculateAveragePopularity tracks1 > calculateAveragePopularity tracks2
           then highlighted info2
           else if calculateAveragePopularity tracks1 < calculateAveragePopularity tracks2
           then highlighted info1
           else \<lparr>res_name = None, res_image = None,
                  message = ''Both playlists are equally underground!''\<rparr>), s4)"
  using assms
  by (simp add: determineWinner_def tryCatch_def andThen_def resolve_def Let_def highlighted_def)

text \<open>
  Claim C4. In the popularity version, when both playlists have at least one track
  and their average popularities differ, the result carries the display name and the
  cover image of the playlist with the lower average, and the message names it.
  For popularities 10, 20, 30 against 80, 90 that is the first playlist.
\<close>

theorem determineWinner_underground:
  assumes "getPlaylistTracks w p1 s = (Inr tracks1, s1)"
    and "getPlaylistTracks w p2 s1 = (Inr tracks2, s2)"
    and "getPlaylistInfo w p1 s2 = (Inr info1, s3)"
    and "getPlaylistInfo w p2 s3 = (Inr info2, s4)"
    and "tracks1 \<noteq> []" and "tracks2 \<noteq> []"
    and "calculateAveragePopularity tracks1 \<noteq> calculateAveragePopularity tracks2"
  shows "fst (determineWinner w p1 p2 s) =
     Inr (highlighted (if calculateAveragePopularity tracks1 < calculateAveragePopularity tracks2
                       then info1 else info2)) \<and>
     highlighted info1 =
       \<lparr>res_name = Some (name info1), res_image = Some (image info1),
        message = name info1 @ '' is more underground, smell some good taste in there!''\<rparr>"
  using determineWinner_result [OF assms(1-6)] assms(7)
  by (auto simp: highlighted_def undergroundMessage_def)

lemma getPlaylistTracks_w0_A:
  "getPlaylistTracks w0 playlistA s0 =
     (Inr [\<lparr>track_id = ''4uLU6hMCjMI75M1A2tKUQC'', popularity = Some 10\<rparr>,
           \<lparr>track_id = ''7ouMYWpwJ422jRcDASZB7P'', popularity = Some 20\<rparr>,
           \<lparr>track_id = ''2takcwOaAZWiXQijPHIx7B'', popularity = Some 30\<rparr>],
      sAfter [TokenReq, TracksReq ''BQDnew'' playlistA])"
  by (simp add: run_defs ex_defs getPlaylistTracks_def keepItem_def toTrack_def)

lemma getPlaylistTracks_w0_B:
  "getPlaylistTracks w0 playlistB (sAfter [TokenReq, TracksReq ''BQDnew'' playlistA]) =
     (Inr [\<lparr>track_id = ''0VjIjW4GlUZAMYd2vXMi3b'', popularity = Some 80\<rparr>,
           \<lparr>track_id = ''3n3Ppam7vgaVa1iaRUc9Lp'', popularity = Some 90\<rparr>],
      sAfter [TokenReq, TracksReq ''BQDnew'' playlistA, TracksReq ''BQDnew'' playlistB])"
  by (simp add: run_defs ex_defs getPlaylistTracks_def keepItem_def toTrack_def)

lemma getPlaylistTracks_w0_D:
  "getPlaylistTracks w0 playlistD (sAfter [TokenReq, TracksReq ''BQDnew'' playlistA]) =
     (Inr [\<lparr>track_id = ''6habFhsOp2NvshLv26DqMb'', popularity = Some 15\<rparr>,
           \<lparr>track_id = ''1301WleyT98MSxVHPZCA6M'', popularity = Some 25\<rparr>],
      sAfter [TokenReq, TracksReq ''BQDnew'' playlistA, TracksReq ''BQDnew'' playlistD])"
  by (simp add: run_defs ex_defs getPlaylistTracks_def keepItem_def toTrack_def)

lemma getPlaylistInfo_w0_A:
  "getPlaylistInfo w0 playlistA (sAfter [TokenReq, TracksReq ''BQDnew'' playlistA, r]) =
     (Inr \<lparr>name = ''Deep Cuts'', image = ''https://i.scdn.co/image/a''\<rparr>,
      sAfter [TokenReq, TracksReq ''BQDnew'' playlistA, r, InfoReq ''BQDnew'' playlistA])"
  by (simp add: run_defs ex_defs getPlaylistInfo_def)

lemma getPlaylistInfo_w0_B:
  "getPlaylistInfo w0 playlistB (sAfter [TokenReq, TracksReq ''BQDnew'' playlistA, r,
        InfoReq ''BQDnew'' playlistA]) =
     (Inr \<lparr>name = ''Top Hits'', image = ''https://i.scdn.co/image/b''\<rparr>,
      sAfter [TokenReq, TracksReq ''BQDnew'' playlistA, r,
        InfoReq ''BQDnew'' playlistA, InfoReq ''BQDnew'' playlistB])"
  by (simp add: run_defs ex_defs getPlaylistInfo_def)

lemma getPlaylistInfo_w0_D:
  "getPlaylistInfo w0 playlistD (sAfter [TokenReq, TracksReq ''BQDnew'' playlistA, r,
        InfoReq ''BQDnew'' playlistA]) =
     (Inr \<lparr>name = ''Side Roads'', image = []\<rparr>,
      sAfter [TokenReq, TracksReq ''BQDnew'' playlistA, r,
        InfoReq ''BQDnew'' playlistA, InfoReq ''BQDnew'' playlistD])"
  by (simp add: run_defs ex_defs getPlaylistInfo_def)

lemma avg_A:
  "calculateAveragePopularity
     [\<lparr>track_id = ''4uLU6hMCjMI75M1A2tKUQC'', popularity = Some 10\<rparr>,
      \<lparr>track_id = ''7ouMYWpwJ422jRcDASZB7P'', popularity = Some 20\<rparr>,
      \<lparr>track_id = ''2takcwOaAZWiXQijPHIx7B'', popularity = Some 30\<rparr>] = 20"
  by (simp add: calculateAveragePopularity_def orZero_def)

lemma avg_B:
  "calculateAveragePopularity
     [\<lparr>track_id = ''0VjIjW4GlUZAMYd2vXMi3b'', popularity = Some 80\<rparr>,
      \<lparr>track_id = ''3n3Ppam7vgaVa1iaRUc9Lp'', popularity = Some 90\<rparr>] = 85"
  by (simp add: calculateAveragePopularity_def orZero_def)

lemma avg_D:
  "calculateAveragePopularity
     [\<lparr>track_id = ''6habFhsOp2NvshLv26DqMb'', popularity = Some 15\<rparr>,
      \<lparr>track_id = ''1301WleyT98MSxVHPZCA6M'', popularity = Some 25\<rparr>] = 20"
  by (simp add: calculateAveragePopularity_def orZero_def)

theorem determineWinner_underground_witness:
  "fst (getPlaylistTracks w0 playlistA s0) =
     Inr [\<lparr>track_id = ''4uLU6hMCjMI75M1A2tKUQC'', popularity = Some 10\<rparr>,
          \<lparr>track_id = ''7ouMYWpwJ422jRcDASZB7P'', popularity = Some 20\<rparr>,
          \<lparr>track_id = ''2takcwOaAZWiXQijPHIx7B'', popularity = Some 30\<rparr>] \<and>
   fst (getPlaylistTracks w0 playlistB (snd (getPlaylistTracks w0 playlistA s0))) =
     Inr [\<lparr>track_id = ''0VjIjW4GlUZAMYd2vXMi3b'', popularity = Some 80\<rparr>,
          \<lparr>track_id = ''3n3Ppam7vgaVa1iaRUc9Lp'', popularity = Some 90\<rparr>] \<and>
   fst (determineWinner w0 playlistA playlistB s0) =
     Inr \<lparr>res_name = Some ''Deep Cuts'', res_image = Some ''https://i.scdn.co/image/a'',
          message = ''Deep Cuts is more underground, smell some good taste in there!''\<rparr>"
proof -
  have ne: "(20::real) \<noteq> 85" by simp
  note t = determineWinner_underground
    [OF getPlaylistTracks_w0_A getPlaylistTracks_w0_B getPlaylistInfo_w0_A getPlaylistInfo_w0_B,
     unfolded avg_A avg_B, OF _ _ ne]
  from t have "fst (determineWinner w0 playlistA playlistB s0) =
     Inr \<lparr>res_name = Some ''Deep Cuts'', res_image = Some ''https://i.scdn.co/image/a'',
          message = ''Deep Cuts is more underground, smell some good taste in there!''\<rparr>"
    by (simp add: highlighted_def undergroundMessage_def)
  then show ?thesis
    by (simp add: getPlaylistTracks_w0_A getPlaylistTracks_w0_B)
qed

lemma determineWinner_tie:
  assumes "getPlaylistTracks w p1 s = (Inr tracks1, s1)"
    and "getPlaylistTracks w p2 s1 = (Inr tracks2, s2)"
    and "getPlaylistInfo w p1 s2 = (Inr info1, s3)"
    and "getPlaylistInfo w p2 s3 = (Inr info2, s4)"
    and "tracks1 \<noteq> []" and "tracks2 \<noteq> []"
    and "calculateAveragePopularity tracks1 = calculateAveragePopularity tracks2"
  shows "fst (determineWinner w p1 p2 s) =
     Inr \<lparr>res_name = None, res_image = None,
          message = ''Both playlists are equally underground!''\<rparr>"
  using determineWinner_result [OF assms(1-6)] assms(7) by simp

lemma determineWinner_tie_example:
  "fst (determineWinner w0 playlistA playlistD s0) =
     Inr \<lparr>res_name = None, res_image = None,
          message = ''Both playlists are equally underground!''\<rparr>"
  using determineWinner_tie
    [OF getPlaylistTracks_w0_A getPlaylistTracks_w0_D getPlaylistInfo_w0_A getPlaylistInfo_w0_D]
  by (simp add: avg_A avg_D)

subsection \<open>The category comparison\<close>

lemma determineWinner_cat_result:
  assumes "categoryMapping category = k" and "k \<noteq> Undefined"
    and "getPlaylistTracks_cat w p1 s = (Inr tracks1, s1)"
    and "getPlaylistTracks_cat w p2 s1 = (Inr tracks2, s2)"
    and "tracks1 \<noteq> []" and "tracks2 \<noteq> []"
    and "getAudioFeatures w tracks1 s2 = (Inr af1, s3)"
    and "getAudioFeatures w tracks2 s3 = (Inr af2, s4)"
    and "avgFeature k af1 = Inr m1" and "avgFeature k af2 = Inr m2"
  shows "determineWinner_cat w p1 p2 category s =
     (Inr (if category = ''Sadder''
           then (if numLess m1 m2 then ''Playlist 1 is sadder'' else ''Playlist 2 is sadder'')
           else (if numLess m2 m1 then ''Playlist 1 is more '' @ toLowerCase category
                 else ''Playlist 2 is more '' @ toLowerCase category)), s4)"
  using assms
  by (simp add: determineWinner_cat_def tryCatch_def andThen_def resolve_def Let_def)

lemma categoryMapping_Sadder: "categoryMapping ''Sadder'' = Str ''valence''"
  by (simp add: categoryMapping_def categoryEntries_def)

lemma categoryMapping_Happier: "categoryMapping ''Happier'' = Str ''valence''"
  by (simp add: categoryMapping_def categoryEntries_def)

text \<open>
  Claim C5. Under the category "Sadder", where the lower value wins, the playlist
  whose mean valence is strictly lower is reported: the first one for means 0.2
  against 0.8, the second one when the means are the other way round.
\<close>

theorem determineWinner_cat_sadder:
  assumes "getPlaylistTracks_cat w p1 s = (Inr tracks1, s1)"
    and "getPlaylistTracks_cat w p2 s1 = (Inr tracks2, s2)"
    and "tracks1 \<noteq> []" and "tracks2 \<noteq> []"
    and "getAudioFeatures w tracks1 s2 = (Inr af1, s3)"
    and "getAudioFeatures w tracks2 s3 = (Inr af2, s4)"
    and "avgFeature (Str ''valence'') af1 = Inr (Some m1)"
    and "avgFeature (Str ''valence'') af2 = Inr (Some m2)"
  shows "(m1 < m2 \<longrightarrow> fst (determineWinner_cat w p1 p2 ''Sadder'' s) = Inr ''Playlist 1 is sadder'') \<and>
         (m2 < m1 \<longrightarrow> fst (determineWinner_cat w p1 p2 ''Sadder'' s) = Inr ''Playlist 2 is sadder'')"
  using determineWinner_cat_result [OF categoryMapping_Sadder _ assms]
  by (simp add: numLess_def)

lemma getPlaylistTracks_cat_w0_A:
  "getPlaylistTracks_cat w0 playlistA s0 = (Inr tracksA, sAfter [TokenReq, TracksReq ''BQDnew'' playlistA])"
  by (simp add: run_defs ex_defs getPlaylistTracks_cat_def)

lemma getPlaylistTracks_cat_w0_B:
  "getPlaylistTracks_cat w0 playlistB (sAfter [TokenReq, TracksReq ''BQDnew'' playlistA]) =
     (Inr tracksB, sAfter [TokenReq, TracksReq ''BQDnew'' playlistA, TracksReq ''BQDnew'' playlistB])"
  by (simp add: run_defs ex_defs getPlaylistTracks_cat_def)

lemma getPlaylistTracks_cat_w0_F:
  "getPlaylistTracks_cat w0 playlistF s0 = (Inr tracksF, sAfter [TokenReq, TracksReq ''BQDnew'' playlistF])"
  by (simp add: run_defs ex_defs getPlaylistTracks_cat_def)

lemma getPlaylistTracks_cat_w0_D:
  "getPlaylistTracks_cat w0 playlistD (sAfter [TokenReq, TracksReq ''BQDnew'' playlistF]) =
     (Inr tracksD, sAfter [TokenReq, TracksReq ''BQDnew'' playlistF, TracksReq ''BQDnew'' playlistD])"
  by (simp add: run_defs ex_defs getPlaylistTracks_cat_def)

lemma getPlaylistTracks_cat_w0_A2:
  "getPlaylistTracks_cat w0 playlistA (sAfter [TokenReq, TracksReq ''BQDnew'' playlistA]) =
     (Inr tracksA, sAfter [TokenReq, TracksReq ''BQDnew'' playlistA, TracksReq ''BQDnew'' playlistA])"
  by (simp add: run_defs ex_defs getPlaylistTracks_cat_def)

lemma getAudioFeatures_w0_A:
  "getAudioFeatures w0 tracksA (sAfter [TokenReq, TracksReq ''BQDnew'' playlistA, r]) =
     (Inr [valence (1/10), valence (1/5), valence (3/10)],
      sAfter [TokenReq, TracksReq ''BQDnew'' playlistA, r, FeaturesReq ''BQDnew'' tracksA])"
  by (simp add: run_defs ex_defs getAudioFeatures_def)

lemma getAudioFeatures_w0_B:
  "getAudioFeatures w0 tracksB (sAfter [TokenReq, TracksReq ''BQDnew'' playlistA, r,
       FeaturesReq ''BQDnew'' tracksA]) =
     (Inr [valence (7/10), valence (9/10)],
      sAfter [TokenReq, TracksReq ''BQDnew'' playlistA, r, FeaturesReq ''BQDnew'' tracksA,
        FeaturesReq ''BQDnew'' tracksB])"
  by (simp add: run_defs ex_defs getAudioFeatures_def)

lemma getAudioFeatures_w0_A2:
  "getAudioFeatures w0 tracksA (sAfter [TokenReq, TracksReq ''BQDnew'' playlistA, r,
       FeaturesReq ''BQDnew'' tracksA]) =
     (Inr [valence (1/10), valence (1/5), valence (3/10)],
      sAfter [TokenReq, TracksReq ''BQDnew'' playlistA, r, FeaturesReq ''BQDnew'' tracksA,
        FeaturesReq ''BQDnew'' tracksA])"
  by (simp add: run_defs ex_defs getAudioFeatures_def)

lemma getAudioFeatures_w0_F:
  "getAudioFeatures w0 tracksF (sAfter [TokenReq, TracksReq ''BQDnew'' playlistF, r]) =
     (Inr [valence (1/4), valence (1/2), valence (3/4)],
      sAfter [TokenReq, TracksReq ''BQDnew'' playlistF, r, FeaturesReq ''BQDnew'' tracksF])"
  by (simp add: run_defs ex_defs getAudioFeatures_def)

lemma getAudioFeatures_w0_D:
  "getAudioFeatures w0 tracksD (sAfter [TokenReq, TracksReq ''BQDnew'' playlistF, r,
       FeaturesReq ''BQDnew'' tracksF]) =
     (Inr [valence (1/2), valence (1/2)],
      sAfter [TokenReq, TracksReq ''BQDnew'' playlistF, r, FeaturesReq ''BQDnew'' tracksF,
        FeaturesReq ''BQDnew'' tracksD])"
  by (simp add: run_defs ex_defs getAudioFeatures_def)

lemma avgFeature_A: "avgFeature (Str ''valence'') [valence (1/10), valence (1/5), valence (3/10)] = Inr (Some (1/5))"
  by (simp add: avgFeature_def valence_def readFeature_def orZero_def)

lemma avgFeature_B: "avgFeature (Str ''valence'') [valence (7/10), valence (9/10)] = Inr (Some (4/5))"
  by (simp add: avgFeature_def valence_def readFeature_def orZero_def)

lemma avgFeature_D: "avgFeature (Str ''valence'') [valence (1/2), valence (1/2)] = Inr (Some (1/2))"
  by (simp add: avgFeature_def valence_def readFeature_def orZero_def)

lemma avgFeature_F: "avgFeature (Str ''valence'') [valence (1/4), valence (1/2), valence (3/4)] = Inr (Some (1/2))"
  by (simp add: avgFeature_def valence_def readFeature_def orZero_def)

lemma tracksF_nonempty: "tracksF \<noteq> []" by (simp add: tracksF_def)
lemma tracksA_nonempty: "tracksA \<noteq> []" by (simp add: tracksA_def)
lemma tracksB_nonempty: "tracksB \<noteq> []" by (simp add: tracksB_def)
lemma tracksD_nonempty: "tracksD \<noteq> []" by (simp add: tracksD_def)

theorem determineWinner_cat_sadder_witness:
  "avgFeature (Str ''valence'') [valence (1/10), valence (1/5), valence (3/10)] = Inr (Some (1/5)) \<and>
   avgFeature (Str ''valence'') [valence (7/10), valence (9/10)] = Inr (Some (4/5)) \<and>
   (1/5 :: real) < 4/5 \<and>
   fst (determineWinner_cat w0 playlistA playlistB ''Sadder'' s0) = Inr ''Playlist 1 is sadder''"
proof -
  have lt: "(1/5 :: real) < 4/5" by simp
  from determineWinner_cat_sadder
    [OF getPlaylistTracks_cat_w0_A getPlaylistTracks_cat_w0_B tracksA_nonempty tracksB_nonempty
        getAudioFeatures_w0_A getAudioFeatures_w0_B avgFeature_A avgFeature_B] lt
  have "fst (determineWinner_cat w0 playlistA playlistB ''Sadder'' s0) = Inr ''Playlist 1 is sadder''"
    by blast
  with avgFeature_A avgFeature_B lt show ?thesis by blast
qed

lemma determineWinner_cat_tie:
  assumes "categoryMapping category = k" and "k \<noteq> Undefined"
    and "getPlaylistTracks_cat w p1 s = (Inr tracks1, s1)"
    and "getPlaylistTracks_cat w p2 s1 = (Inr tracks2, s2)"
    and "tracks1 \<noteq> []" and "tracks2 \<noteq> []"
    and "getAudioFeatures w tracks1 s2 = (Inr af1, s3)"
    and "getAudioFeatures w tracks2 s3 = (Inr af2, s4)"
    and "avgFeature k af1 = Inr m" and "avgFeature k af2 = Inr m"
  shows "fst (determineWinner_cat w p1 p2 category s) =
     Inr (if category = ''Sadder'' then ''Playlist 2 is sadder''
          else ''Playlist 2 is more '' @ toLowerCase category)"
  using determineWinner_cat_result [OF assms]
  by (simp add: numLess_def split: option.splits)

text \<open>
  Claim C1, at a tie in the category version. Playlists F and D have the same mean
  valence 0.5, computed without rounding in doubles as in the reals (0.25, 0.5, 0.75
  against 0.5, 0.5); and playlist A compared with itself has the same mean on both
  sides, whatever the rounding, because both sides are one computation on one list.
  In each case the result names playlist 2 as the winner, under "Happier" and under
  "Sadder": no result for equal means exists in this version. The popularity version
  has one (lemma \<open>determineWinner_tie\<close>).
\<close>

theorem determineWinner_cat_tie_names_playlist2:
  "avgFeature (Str ''valence'') [valence (1/4), valence (1/2), valence (3/4)] = Inr (Some (1/2)) \<and>
   avgFeature (Str ''valence'') [valence (1/2), valence (1/2)] = Inr (Some (1/2)) \<and>
   fst (determineWinner_cat w0 playlistF playlistD ''Happier'' s0) = Inr ''Playlist 2 is more happier'' \<and>
   fst (determineWinner_cat w0 playlistF playlistD ''Sadder'' s0) = Inr ''Playlist 2 is sadder'' \<and>
   fst (determineWinner_cat w0 playlistA playlistA ''Happier'' s0) = Inr ''Playlist 2 is more happier'' \<and>
   fst (determineWinner_cat w0 playlistA playlistA ''Sadder'' s0) = Inr ''Playlist 2 is sadder''"
proof -
  have ne: "Str ''valence'' \<noteq> Undefined" by simp
  note run = getPlaylistTracks_cat_w0_F getPlaylistTracks_cat_w0_D tracksF_nonempty
    tracksD_nonempty getAudioFeatures_w0_F getAudioFeatures_w0_D avgFeature_F avgFeature_D
  note same = getPlaylistTracks_cat_w0_A getPlaylistTracks_cat_w0_A2 tracksA_nonempty
    tracksA_nonempty getAudioFeatures_w0_A getAudioFeatures_w0_A2 avgFeature_A avgFeature_A
  have h: "fst (determineWinner_cat w0 playlistF playlistD ''Happier'' s0) =
      Inr ''Playlist 2 is more happier''"
    using determineWinner_cat_tie [OF categoryMapping_Happier ne run]
    by (simp add: toLowerCase_def toLowerChar_def)
  have d: "fst (determineWinner_cat w0 playlistF playlistD ''Sadder'' s0) =
      Inr ''Playlist 2 is sadder''"
    using determineWinner_cat_tie [OF categoryMapping_Sadder ne run] by simp
  have h2: "fst (determineWinner_cat w0 playlistA playlistA ''Happier'' s0) =
      Inr ''Playlist 2 is more happier''"
    using determineWinner_cat_tie [OF categoryMapping_Happier ne same]
    by (simp add: toLowerCase_def toLowerChar_def)
  have d2: "fst (determineWinner_cat w0 playlistA playlistA ''Sadder'' s0) =
      Inr ''Playlist 2 is sadder''"
    using determineWinner_cat_tie [OF categoryMapping_Sadder ne same] by simp
  from avgFeature_F avgFeature_D h d h2 d2 show ?thesis by blast
qed









subsection \<open>Failures of the fetchers\<close>

lemma getPlaylistTracks_Ok:
  assumes "getToken w s = (Inr tok, s1)"
    and "tracks_ep w (length (requests s1)) tok pid = Ok d"
  shows "fst (getPlaylistTracks w pid s) =
     (case items d of
        None \<Rightarrow> Inl (Error ''Failed to fetch playlist data'')
      | Some its \<Rightarrow>
          if its = [] then Inl (Error ''Failed to fetch playlist data'')
          else Inr (map toTrack (filter keepItem its)))"
  using assms
  by (simp add: getPlaylistTracks_def tryCatch_def andThen_def await_http_def resolve_def
      throw_def split: option.splits)

lemma getPlaylistTracks_cat_Ok:
  assumes "getToken w s = (Inr tok, s1)"
    and "tracks_ep w (length (requests s1)) tok pid = Ok d"
  shows "fst (getPlaylistTracks_cat w pid s) =
     (case items d of
        None \<Rightarrow> Inl (Error ''Failed to fetch playlist data'')
      | Some its \<Rightarrow>
          if its = [] then Inl (Error ''Failed to fetch playlist data'')
          else (case trackIds its of
                  Inl e \<Rightarrow> Inl (Error ''Failed to fetch playlist data'')
                | Inr ids \<Rightarrow> Inr (map orEmpty (filter truthy ids))))"
  using assms
  by (simp add: getPlaylistTracks_cat_def tryCatch_def andThen_def await_http_def resolve_def
      throw_def split: option.splits sum.splits)

lemma determineWinner_no_tracks1:
  "getPlaylistTracks w p1 s = (Inr [], s1) \<Longrightarrow>
   fst (determineWinner w p1 p2 s) = Inl (Error ''Failed to determine winner'')"
  by (simp add: determineWinner_def tryCatch_def andThen_def throw_def
      split: prod.splits sum.splits)

lemma determineWinner_no_tracks2:
  "getPlaylistTracks w p1 s = (Inr tracks1, s1) \<Longrightarrow> getPlaylistTracks w p2 s1 = (Inr [], s2) \<Longrightarrow>
   fst (determineWinner w p1 p2 s) = Inl (Error ''Failed to determine winner'')"
  by (simp add: determineWinner_def tryCatch_def andThen_def throw_def
      split: prod.splits sum.splits)

lemma determineWinner_cat_no_tracks:
  "categoryMapping category \<noteq> Undefined \<Longrightarrow>
   getPlaylistTracks_cat w p1 s = (Inr tracks1, s1) \<Longrightarrow>
   getPlaylistTracks_cat w p2 s1 = (Inr tracks2, s2) \<Longrightarrow> tracks1 = [] \<or> tracks2 = [] \<Longrightarrow>
   determineWinner_cat w p1 p2 category s = (Inr ''One of the playlists has no tracks.'', s2)"
  by (auto simp: determineWinner_cat_def tryCatch_def andThen_def resolve_def Let_def)

text \<open>
  Claim C2, as the code has it. \<^verbatim>\<open>getPlaylistTracks\<close> tests the item list before it
  filters: it throws when the response carries no item list or an empty one. A
  non-empty item list is filtered and returned, also when no entry is left; the
  category version throws in addition when an entry has no track object. (The empty
  list is refused one level up: \<open>determineWinner_no_tracks1\<close>,
  \<open>determineWinner_no_tracks2\<close>, \<open>determineWinner_cat_no_tracks\<close>.)
\<close>

theorem getPlaylistTracks_items:
  assumes "getToken w s = (Inr tok, s1)"
    and "tracks_ep w (length (requests s1)) tok pid = Ok d"
  shows "(items d = None \<or> items d = Some [] \<longrightarrow>
            fst (getPlaylistTracks w pid s) = Inl (Error ''Failed to fetch playlist data'') \<and>
            fst (getPlaylistTracks_cat w pid s) = Inl (Error ''Failed to fetch playlist data'')) \<and>
         (\<forall>its. items d = Some its \<and> its \<noteq> [] \<longrightarrow>
            fst (getPlaylistTracks w pid s) = Inr (map toTrack (filter keepItem its)) \<and>
            fst (getPlaylistTracks_cat w pid s) =
              (case trackIds its of
                 Inl e \<Rightarrow> Inl (Error ''Failed to fetch playlist data'')
               | Inr ids \<Rightarrow> Inr (map orEmpty (filter truthy ids))))"
  using getPlaylistTracks_Ok [OF assms] getPlaylistTracks_cat_Ok [OF assms]
  by auto

lemma getToken_w0_s0: "getToken w0 s0 = (Inr ''BQDnew'', sAfter [TokenReq])"
  by (simp add: run_defs ex_defs)

theorem getPlaylistTracks_items_witness:
  "getToken w0 s0 = (Inr ''BQDnew'', sAfter [TokenReq]) \<and>
   tracks_ep w0 (length (requests (sAfter [TokenReq]))) ''BQDnew'' playlistE = Ok \<lparr>items = Some []\<rparr> \<and>
   fst (getPlaylistTracks w0 playlistE s0) = Inl (Error ''Failed to fetch playlist data'') \<and>
   fst (getPlaylistTracks_cat w0 playlistE s0) = Inl (Error ''Failed to fetch playlist data'') \<and>
   tracks_ep w0 (length (requests (sAfter [TokenReq]))) ''BQDnew'' playlistA =
     Ok \<lparr>items = Some (map2 mkItem tracksA [10, 20, 30])\<rparr> \<and>
   map2 mkItem tracksA [10, 20, 30] \<noteq> [] \<and>
   fst (getPlaylistTracks w0 playlistA s0) =
     Inr (map toTrack (filter keepItem (map2 mkItem tracksA [10, 20, 30]))) \<and>
   fst (getPlaylistTracks_cat w0 playlistA s0) = Inr tracksA"
proof -
  have e: "tracks_ep w0 (length (requests (sAfter [TokenReq]))) ''BQDnew'' playlistE =
      Ok \<lparr>items = Some []\<rparr>"
    by (simp add: ex_defs)
  have a: "tracks_ep w0 (length (requests (sAfter [TokenReq]))) ''BQDnew'' playlistA =
      Ok \<lparr>items = Some (map2 mkItem tracksA [10, 20, 30])\<rparr>"
    by (simp add: w0_def)
  have ne: "map2 mkItem tracksA [10, 20, 30] \<noteq> []" by (simp add: tracksA_def)
  have ids: "trackIds (map2 mkItem tracksA [10, 20, 30]) = Inr (map Some tracksA)"
    by (simp add: tracksA_def mkItem_def)
  have f: "map orEmpty (filter truthy (map Some tracksA)) = tracksA"
    by (simp add: tracksA_def truthy_def orEmpty_def)
  from getPlaylistTracks_items [OF getToken_w0_s0 e]
  have 1: "fst (getPlaylistTracks w0 playlistE s0) = Inl (Error ''Failed to fetch playlist data'') \<and>
      fst (getPlaylistTracks_cat w0 playlistE s0) = Inl (Error ''Failed to fetch playlist data'')"
    by simp
  from getPlaylistTracks_items [OF getToken_w0_s0 a] ne ids f
  have 2: "fst (getPlaylistTracks w0 playlistA s0) =
       Inr (map toTrack (filter keepItem (map2 mkItem tracksA [10, 20, 30]))) \<and>
     fst (getPlaylistTracks_cat w0 playlistA s0) = Inr tracksA"
    by simp
  from getToken_w0_s0 e a ne 1 2 show ?thesis by blast
qed

theorem getPlaylistTracks_empty_success:
  "filter keepItem [\<lparr>item_track = Some \<lparr>raw_id = None, raw_popularity = Some 50\<rparr>\<rparr>] = [] \<and>
   fst (getPlaylistTracks w0 playlistC s0) = Inr [] \<and>
   fst (getPlaylistTracks_cat w0 playlistC s0) = Inr []"
proof (intro conjI)
  show "filter keepItem [\<lparr>item_track = Some \<lparr>raw_id = None, raw_popularity = Some 50\<rparr>\<rparr>] = []"
    by (simp add: keepItem_def truthy_def)
  show "fst (getPlaylistTracks w0 playlistC s0) = Inr []"
    by (simp add: run_defs ex_defs getPlaylistTracks_def keepItem_def toTrack_def)
  show "fst (getPlaylistTracks_cat w0 playlistC s0) = Inr []"
    by (simp add: run_defs ex_defs getPlaylistTracks_cat_def)
qed

text \<open>
  Claim C3, as the code has it. When the audio-features request is rejected,
  \<^verbatim>\<open>getAudioFeatures\<close> throws \<^verbatim>\<open>new Error("Failed to fetch audio features")\<close> whatever
  the status; status 429 changes only the line written to the console.
\<close>

theorem getAudioFeatures_rejected:
  assumes "getToken w s = (Inr tok, s1)"
    and "valid = filter (\<lambda>i. i \<noteq> [] \<and> length i = 22) ids"
    and "valid \<noteq> []"
    and "features_ep w (length (requests s1)) tok valid = Rejected st"
  shows "getAudioFeatures w ids s =
     (Inl (Error ''Failed to fetch audio features''),
      console_error
        (if st = Some 429 then ''Rate limit exceeded. Please try again later.''
         else ''Error fetching audio features:'')
        (issue w (FeaturesReq tok valid) s1))"
  using assms
  by (simp add: getAudioFeatures_def tryCatch_def andThen_def await_http_def throw_def Let_def)

theorem getAudioFeatures_rejected_witness:
  "getToken (rejecting 429) s0 = (Inr ''BQDnew'', sAfter [TokenReq]) \<and>
   tracksA = filter (\<lambda>i. i \<noteq> [] \<and> length i = 22) tracksA \<and> tracksA \<noteq> [] \<and>
   features_ep (rejecting 429) (length (requests (sAfter [TokenReq]))) ''BQDnew'' tracksA =
     Rejected (Some 429) \<and>
   fst (getAudioFeatures (rejecting 429) tracksA s0) = Inl (Error ''Failed to fetch audio features'') \<and>
   console (snd (getAudioFeatures (rejecting 429) tracksA s0)) =
     [''Rate limit exceeded. Please try again later.'']"
proof -
  have g: "getToken (rejecting 429) s0 = (Inr ''BQDnew'', sAfter [TokenReq])"
    by (simp add: run_defs ex_defs rejecting_def)
  have v: "tracksA = filter (\<lambda>i. i \<noteq> [] \<and> length i = 22) tracksA"
    by (simp add: tracksA_def)
  have r: "features_ep (rejecting 429) (length (requests (sAfter [TokenReq]))) ''BQDnew'' tracksA =
      Rejected (Some 429)"
    by (simp add: rejecting_def)
  from getAudioFeatures_rejected [OF g v tracksA_nonempty r]
  have "fst (getAudioFeatures (rejecting 429) tracksA s0) = Inl (Error ''Failed to fetch audio features'') \<and>
    console (snd (getAudioFeatures (rejecting 429) tracksA s0)) =
      [''Rate limit exceeded. Please try again later.'']"
    by (simp add: console_error_def issue_def sAfter_def)
  with g v tracksA_nonempty r show ?thesis by blast
qed

theorem getAudioFeatures_429_same_error:
  "fst (getAudioFeatures (rejecting 429) tracksA s0) = Inl (Error ''Failed to fetch audio features'') \<and>
   fst (getAudioFeatures (rejecting 500) tracksA s0) = Inl (Error ''Failed to fetch audio features'') \<and>
   fst (getAudioFeatures (rejecting 429) tracksA s0) = fst (getAudioFeatures (rejecting 500) tracksA s0)"
proof -
  have a: "fst (getAudioFeatures (rejecting 429) tracksA s0) = Inl (Error ''Failed to fetch audio features'')"
    by (simp add: run_defs ex_defs rejecting_def getAudioFeatures_def)
  have b: "fst (getAudioFeatures (rejecting 500) tracksA s0) = Inl (Error ''Failed to fetch audio features'')"
    by (simp add: run_defs ex_defs rejecting_def getAudioFeatures_def)
  from a b show ?thesis by simp
qed

end
